theory Spec2Isabelle
  imports Main "HOL-Library.Word" "HOL-Library.AList" "HOL-Library.Char_ord"
    "HOL-Library.List_Lexorder"
begin

unbundle bit_operations_syntax

section \<open>Data model\<close>

text \<open>
  Paths and all other QString / std::string values are character lists. The C types
  \<open>mode_t\<close>, \<open>uid_t\<close>, \<open>gid_t\<close> and \<open>int\<close> are 32-bit words, \<open>time_t\<close> is a 64-bit
  word that the code compares as a signed number (\<open>sint\<close>).
\<close>

type_synonym path = string

text \<open>The fields of \<open>struct stat\<close> that shared.cpp reads; \<open>st_mtime\<close> is \<open>st_mtim.tv_sec\<close>.\<close>

record stat_t =
  st_uid :: "32 word"
  st_gid :: "32 word"
  st_mode :: "32 word"
  st_mtime :: "64 word"

text \<open>
  A loaded GKeyFile: the values by (group, key), in file order. \<open>g_key_file_get_string\<close>
  is a lookup that yields NULL (\<open>None\<close>) for a missing key.
\<close>

type_synonym keyfile = "((string \<times> string) \<times> string) list"

datatype icon = Critical | Warning

text \<open>What the program does to the outside, in the order it does it.\<close>

datatype event =
    EChmod path "32 word"
  | ERemove path
  | EMkdir path
  | ERename path path
  | ECopy path path
  | ERegister path
  | ESave path keyfile
  | ERunProcess string
  | EStderr string
  | EStdout string
  | EMessageBox icon string string
  | EQuestionBox icon string
  | EDBusIconChanged

text \<open>
  The mutable world: \<open>fs\<close> is what \<open>stat()\<close> answers for a path (\<open>None\<close>: the call fails,
  the path does not exist), \<open>keyfiles\<close> what \<open>g_key_file_load_from_file\<close> parses from a
  file (\<open>None\<close>: it cannot be loaded), \<open>dirs\<close> the entry names of a directory,
  \<open>subtree\<close> the paths below a directory as a recursive iteration yields them, and
  \<open>trace\<close> the effects so far.
\<close>

record world =
  fs :: "path \<Rightarrow> stat_t option"
  keyfiles :: "path \<Rightarrow> keyfile option"
  dirs :: "path \<Rightarrow> string list"
  subtree :: "path \<Rightarrow> path list"
  trace :: "event list"

datatype button = Yes | No | Ok | Cancel

text \<open>
  The parts of the operating system, of Qt, glib and libappimage that the code consults
  and that this repository does not define.
  \<^item> \<open>default_integration_destination\<close> is the macro \<open>DEFAULT_INTEGRATION_DESTINATION\<close>,
    \<open>private_libdir\<close> the macro \<open>PRIVATE_LIBDIR\<close> of the build, and
    \<open>default_resolve_collisions\<close> the default argument that shared.h declares for
    \<open>installDesktopFileAndIcons\<close>.
  \<^item> \<open>xhost_exit_code\<close> is the exit code that \<open>QProcess\<close> reports for \<open>xhost\<close>,
    \<open>own_binary_realpath\<close> the result of \<open>realpath("/proc/self/exe")\<close>, \<open>home_path\<close>,
    \<open>config_location\<close> and \<open>generic_data_location\<close> the paths of \<open>QDir::homePath\<close> and
    \<open>QStandardPaths::writableLocation\<close>.
  \<^item> \<open>chmod_permitted\<close>, \<open>remove_permitted\<close> and \<open>rename_permitted\<close> say whether the
    system carries out the call; \<open>mkdir_stat\<close>, \<open>copy_stat\<close> and \<open>save_stat\<close> give the
    \<open>stat()\<close> data of the directory or file that the call creates, \<open>None\<close> when the
    system refuses the call.
  \<^item> \<open>qsettings_ini\<close> gives the values of a \<open>QSettings\<close> object in \<open>IniFormat\<close> by key (as
    strings), \<open>qdir_path\<close> the path of a \<open>QDir\<close> made from a string, \<open>qdir_name_filter\<close>
    whether Qt matches a name with a list of name filters, \<open>absolute_file_path\<close> and
    \<open>absolute_dir_path\<close> are \<open>QFileInfo::absoluteFilePath\<close> and
    \<open>QFileInfo::dir().absolutePath()\<close>; \<open>file_open_readonly\<close>, \<open>file_seek\<close> and \<open>file_read\<close>
    are the calls on a \<open>QFile\<close>.
  \<^item> \<open>overwrite_click\<close> and \<open>copy_click\<close> are the buttons the user clicks in the two
    question dialogs of \<open>integrateAppImage\<close> (\<open>None\<close>: the dialog goes away with no
    button clicked).
\<close>

record sys =
  getuid :: "32 word"
  getgid :: "32 word"
  getenv :: "string \<Rightarrow> string option"
  xhost_exit_code :: int
  home_path :: string
  config_location :: string
  generic_data_location :: string
  default_integration_destination :: string
  private_libdir :: string
  default_resolve_collisions :: bool
  application_version :: string
  own_binary_realpath :: "path option"
  chmod_permitted :: "path \<Rightarrow> bool"
  remove_permitted :: "path \<Rightarrow> bool"
  rename_permitted :: "path \<Rightarrow> path \<Rightarrow> bool"
  save_stat :: "path \<Rightarrow> stat_t option"
  mkdir_stat :: "path \<Rightarrow> stat_t option"
  copy_stat :: "path \<Rightarrow> path \<Rightarrow> stat_t option"
  qsettings_ini :: "path \<Rightarrow> (string \<Rightarrow> string option)"
  qdir_path :: "string \<Rightarrow> string"
  qdir_name_filter :: "string list \<Rightarrow> string \<Rightarrow> bool"
  absolute_file_path :: "path \<Rightarrow> path"
  absolute_dir_path :: "path \<Rightarrow> path"
  appimage_get_type :: "path \<Rightarrow> 32 word"
  appimage_register_in_system :: "path \<Rightarrow> world \<Rightarrow> 32 word \<times> world"
  appimage_registered_desktop_file_path :: "world \<Rightarrow> path \<Rightarrow> path option"
  appimage_get_elf_section_offset_and_length :: "path \<Rightarrow> string \<Rightarrow> bool \<times> 64 word \<times> 64 word"
  file_open_readonly :: "path \<Rightarrow> bool"
  file_seek :: "path \<Rightarrow> 64 word \<Rightarrow> bool"
  file_read :: "path \<Rightarrow> 64 word \<Rightarrow> nat \<Rightarrow> 64 word \<times> 8 word list"
  appimage_type2_digest_md5 :: "path \<Rightarrow> bool \<times> 8 word list"
  appimage_hexlify :: "8 word list \<Rightarrow> string"
  overwrite_click :: "button option"
  copy_click :: "button option"

text \<open>A C++ exception that leaves the function, or undefined behaviour that the code runs into.\<close>

datatype failure = RuntimeError string | NullDereference | InvalidIterator


section \<open>Strings\<close>

text \<open>
  The QString operations the code calls, as Qt documents them: \<open>startsWith\<close>,
  \<open>endsWith\<close> and \<open>contains\<close> (case sensitive), \<open>trimmed\<close> (white space off both
  ends), \<open>split(" ").first()\<close> (the text before the first space).
\<close>

definition startsWith :: "string \<Rightarrow> string \<Rightarrow> bool" where
  "startsWith str pre = (take (length pre) str = pre)"

definition endsWith :: "string \<Rightarrow> string \<Rightarrow> bool" where
  "endsWith str post = (length post \<le> length str \<and> drop (length str - length post) str = post)"

fun contains :: "string \<Rightarrow> string \<Rightarrow> bool" where
  "contains [] sub = (sub = [])"
| "contains (c # cs) sub = (startsWith (c # cs) sub \<or> contains cs sub)"

definition is_space :: "char \<Rightarrow> bool" where
  "is_space c = (c \<in> {CHR '' '', CHR 0x09, CHR 0x0A, CHR 0x0B, CHR 0x0C, CHR 0x0D})"

definition trimmed :: "string \<Rightarrow> string" where
  "trimmed str = rev (dropWhile is_space (rev (dropWhile is_space str)))"

definition split_first :: "char \<Rightarrow> string \<Rightarrow> string" where
  "split_first sep str = takeWhile (\<lambda>c. c \<noteq> sep) str"

definition is_digit :: "char \<Rightarrow> bool" where
  "is_digit c = (CHR ''0'' \<le> c \<and> c \<le> CHR ''9'')"

text \<open>The value of a decimal digit string, most significant digit first.\<close>

fun digits_value :: "nat \<Rightarrow> string \<Rightarrow> nat" where
  "digits_value acc [] = acc"
| "digits_value acc (c # cs) = digits_value (10 * acc + (of_char c - 48)) cs"

text \<open>
  \<open>QString::toUInt\<close>: white space around the number and a plus sign are accepted; the
  result is 0 when the text is not a number or the number does not fit 32 bits.
\<close>

definition toUInt :: "string \<Rightarrow> 32 word" where
  "toUInt str =
     (let t = trimmed str;
          ds = (case t of [] \<Rightarrow> [] | c # r \<Rightarrow> if c = CHR ''+'' then r else t)
      in if ds \<noteq> [] \<and> list_all is_digit ds \<and> digits_value 0 ds < 2 ^ 32
         then of_nat (digits_value 0 ds) else 0)"

text \<open>\<open>QString::number\<close> of an unsigned number: its decimal digits.\<close>

fun number_digits :: "nat \<Rightarrow> string" where
  "number_digits n =
     (if n < 10 then [char_of (48 + n)]
      else number_digits (n div 10) @ [char_of (48 + n mod 10)])"

definition qstring_number :: "32 word \<Rightarrow> string" where
  "qstring_number n = number_digits (unat n)"

text \<open>
  \<open>QString::replace(before, "")\<close>: every occurrence of the text, found from left to
  right, is dropped; \<open>skip\<close> counts the characters of a found occurrence still to drop.
\<close>

fun remove_all :: "string \<Rightarrow> nat \<Rightarrow> string \<Rightarrow> string" where
  "remove_all sub skip [] = []"
| "remove_all sub skip (c # cs) =
     (if 0 < skip then remove_all sub (skip - 1) cs
      else if sub \<noteq> [] \<and> startsWith (c # cs) sub
      then remove_all sub (length sub - 1) cs
      else c # remove_all sub 0 cs)"

text \<open>
  \<open>QFileInfo\<close>: \<open>fileName\<close> is the path after its last slash, \<open>completeBaseName\<close> the file
  name up to its last dot and \<open>suffix\<close> the file name after its last dot (empty when the
  name has no dot).
\<close>

definition qfileinfo_fileName :: "path \<Rightarrow> string" where
  "qfileinfo_fileName p = rev (takeWhile (\<lambda>c. c \<noteq> CHR ''/'') (rev p))"

definition completeBaseName :: "path \<Rightarrow> string" where
  "completeBaseName p =
     (let n = qfileinfo_fileName p in
      if CHR ''.'' \<in> set n then rev (tl (dropWhile (\<lambda>c. c \<noteq> CHR ''.'') (rev n))) else n)"

definition qfileinfo_suffix :: "path \<Rightarrow> string" where
  "qfileinfo_suffix p =
     (let n = qfileinfo_fileName p in
      if CHR ''.'' \<in> set n then rev (takeWhile (\<lambda>c. c \<noteq> CHR ''.'') (rev n)) else [])"

text \<open>
  The regular expression \<open>^.*\(([0-9]+)\)$\<close> of \<open>installDesktopFileAndIcons\<close> (line 400),
  matched by \<open>QRegularExpression::match\<close>: the dot matches every character but a line
  feed, and the dollar matches at the end of the subject or before a line feed that ends
  it. The result is \<open>captured(0)\<close>, the whole match, and \<open>captured(1)\<close>, the digits in the
  brackets.
\<close>

definition regex_match :: "string \<Rightarrow> (string \<times> string) option" where
  "regex_match subject =
     (let core = (if subject \<noteq> [] \<and> last subject = CHR 0x0A then butlast subject else subject)
      in case rev core of
           [] \<Rightarrow> None
         | c # r1 \<Rightarrow>
             if c \<noteq> CHR '')'' then None
             else let ds = takeWhile is_digit r1; r2 = dropWhile is_digit r1 in
               if ds = [] then None
               else (case r2 of
                       [] \<Rightarrow> None
                     | d # r3 \<Rightarrow>
                         if d = CHR ''('' \<and> CHR 0x0A \<notin> set core
                         then Some (core, rev ds) else None))"

section \<open>System calls and library calls with an effect\<close>

text \<open>\<open>stat()\<close> fails on the empty path.\<close>

definition sys_stat :: "world \<Rightarrow> path \<Rightarrow> stat_t option" where
  "sys_stat w p = (if p = [] then None else fs w p)"

definition log_event :: "event \<Rightarrow> world \<Rightarrow> world" where
  "log_event e w = w\<lparr>trace := trace w @ [e]\<rparr>"

text \<open>
  \<open>chmod(path, mode)\<close>: where the system permits it, the permission bits (07777) of
  the file become those of \<open>mode\<close>. The result is whether the call returned 0.
\<close>

definition sys_chmod :: "sys \<Rightarrow> path \<Rightarrow> 32 word \<Rightarrow> world \<Rightarrow> bool \<times> world" where
  "sys_chmod s p m w =
     (let w1 = log_event (EChmod p m) w in
      case sys_stat w p of
        None \<Rightarrow> (False, w1)
      | Some st \<Rightarrow>
          if chmod_permitted s p
          then (True, w1\<lparr>fs := (fs w)(p \<mapsto> st\<lparr>st_mode := (st_mode st AND NOT 4095) OR (m AND 4095)\<rparr>)\<rparr>)
          else (False, w1))"

definition qfile_exists :: "world \<Rightarrow> path \<Rightarrow> bool" where
  "qfile_exists w p = (sys_stat w p \<noteq> None)"

text \<open>The file type bits of \<open>st_mode\<close>: \<open>S_IFMT\<close> = 0170000, \<open>S_IFREG\<close> = 0100000, \<open>S_IFDIR\<close> = 0040000.\<close>

definition qfileinfo_isFile :: "world \<Rightarrow> path \<Rightarrow> bool" where
  "qfileinfo_isFile w p =
     (case sys_stat w p of None \<Rightarrow> False | Some st \<Rightarrow> st_mode st AND 61440 = 32768)"

definition qdir_exists :: "world \<Rightarrow> path \<Rightarrow> bool" where
  "qdir_exists w p =
     (case sys_stat w p of None \<Rightarrow> False | Some st \<Rightarrow> st_mode st AND 61440 = 16384)"

text \<open>\<open>QFile::remove\<close>: the result is whether the file was removed.\<close>

definition qfile_remove :: "sys \<Rightarrow> path \<Rightarrow> world \<Rightarrow> bool \<times> world" where
  "qfile_remove s p w =
     (let w1 = log_event (ERemove p) w in
      if qfile_exists w p \<and> remove_permitted s p
      then (True, w1\<lparr>fs := (fs w)(p := None), keyfiles := (keyfiles w)(p := None)\<rparr>)
      else (False, w1))"




text \<open>The path of a directory entry: the directory, a slash unless it ends in one, the name.\<close>

definition qdir_filePath :: "path \<Rightarrow> string \<Rightarrow> path" where
  "qdir_filePath directory n =
     (if endsWith directory ''/'' then directory @ n else directory @ ''/'' @ n)"

text \<open>The paths that a \<open>QDirIterator\<close> over a directory yields: its entries that exist.\<close>

definition qdir_iterator :: "world \<Rightarrow> path \<Rightarrow> path list" where
  "qdir_iterator w directory =
     filter (qfile_exists w) (map (qdir_filePath directory) (dirs w directory))"

text \<open>The same with \<open>QDirIterator::Subdirectories\<close>: the existing paths below the directory.\<close>

definition qdir_iterator_subdirectories :: "world \<Rightarrow> path \<Rightarrow> path list" where
  "qdir_iterator_subdirectories w directory = filter (qfile_exists w) (subtree w directory)"

text \<open>
  \<open>QDir::entryList\<close> with name filters set: the names of the existing entries that Qt
  matches with the filters.
\<close>

definition qdir_entryList :: "sys \<Rightarrow> world \<Rightarrow> path \<Rightarrow> string list \<Rightarrow> string list" where
  "qdir_entryList s w directory filters =
     filter (\<lambda>n. qdir_name_filter s filters n \<and> qfile_exists w (qdir_filePath directory n))
       (dirs w directory)"

definition g_key_file_load_from_file :: "world \<Rightarrow> path \<Rightarrow> keyfile option" where
  "g_key_file_load_from_file w p = (if qfile_exists w p then keyfiles w p else None)"

definition g_key_file_get_string :: "keyfile \<Rightarrow> string \<Rightarrow> string \<Rightarrow> string option" where
  "g_key_file_get_string kf group_name key = map_of kf (group_name, key)"

definition g_key_file_set_string :: "keyfile \<Rightarrow> string \<Rightarrow> string \<Rightarrow> string \<Rightarrow> keyfile" where
  "g_key_file_set_string kf group_name key v = AList.update (group_name, key) v kf"

text \<open>A string list is stored with a semicolon after every element.\<close>

definition g_key_file_set_string_list :: "keyfile \<Rightarrow> string \<Rightarrow> string \<Rightarrow> string list \<Rightarrow> keyfile" where
  "g_key_file_set_string_list kf group_name key vs =
     AList.update (group_name, key) (concat (map (\<lambda>v. v @ '';'') vs)) kf"

text \<open>
  \<open>g_key_file_save_to_file\<close> writes a new file and moves it to the path: the file gets
  new \<open>stat()\<close> data.
\<close>

definition g_key_file_save_to_file :: "sys \<Rightarrow> keyfile \<Rightarrow> path \<Rightarrow> world \<Rightarrow> bool \<times> world" where
  "g_key_file_save_to_file s kf p w =
     (let w1 = log_event (ESave p kf) w in
      case save_stat s p of
        None \<Rightarrow> (False, w1)
      | Some st \<Rightarrow>
          if p = [] then (False, w1)
          else (True, w1\<lparr>fs := (fs w)(p \<mapsto> st), keyfiles := (keyfiles w)(p \<mapsto> kf)\<rparr>))"

section \<open>Permission bits\<close>

text \<open>
  The octal constants of the source in decimal: 0100 = 64, 0010 = 8, 0001 = 1,
  0111 = 73 and 07777 = 4095.
\<close>

text \<open>shared.cpp, lines 48-65.\<close>

definition makeExecutable :: "sys \<Rightarrow> path \<Rightarrow> world \<Rightarrow> bool \<times> world" where
  "makeExecutable s p w =
     (case sys_stat w p of
        None \<Rightarrow> (False, log_event (EStderr (''Failed to call stat() on '' @ p)) w)
      | Some fileStat \<Rightarrow>
          if (st_uid fileStat = getuid s \<and> st_mode fileStat AND 64 \<noteq> 0) \<or>
             (st_gid fileStat = getgid s \<and> st_mode fileStat AND 8 \<noteq> 0) \<or>
             (st_mode fileStat AND 1 \<noteq> 0)
          then (True, w)
          else sys_chmod s p (st_mode fileStat OR 73) w)"

text \<open>
  The loop of \<open>makeNonExecutable\<close> over the three execute bits: a bit that is set is
  subtracted from the permissions (lines 78-81).
\<close>

fun remove_perm_parts :: "32 word list \<Rightarrow> 32 word \<Rightarrow> 32 word" where
  "remove_perm_parts [] permissions = permissions"
| "remove_perm_parts (permPart # rest) permissions =
     remove_perm_parts rest
       (if permissions AND permPart \<noteq> 0 then permissions - permPart else permissions)"

text \<open>shared.cpp, lines 67-84.\<close>

definition makeNonExecutable :: "sys \<Rightarrow> path \<Rightarrow> world \<Rightarrow> bool \<times> world" where
  "makeNonExecutable s p w =
     (case sys_stat w p of
        None \<Rightarrow> (False, log_event (EStderr (''Failed to call stat() on '' @ p)) w)
      | Some fileStat \<Rightarrow>
          sys_chmod s p (remove_perm_parts [64, 8, 1] (st_mode fileStat)) w)"

text \<open>
  The words of claim C5 for "already executable for the caller": the owner execute bit
  (bit 6) is set and the caller owns the file, the group execute bit (bit 3) is set and
  the caller's group is the file's, or the other execute bit (bit 0) is set.
\<close>

definition executableForCaller :: "sys \<Rightarrow> stat_t \<Rightarrow> bool" where
  "executableForCaller s st =
     ((st_uid st = getuid s \<and> bit (st_mode st) 6) \<or>
      (st_gid st = getgid s \<and> bit (st_mode st) 3) \<or>
      bit (st_mode st) 0)"

section \<open>Configuration\<close>

text \<open>
  shared.cpp, lines 86-93. On the empty string \<open>path[0]\<close> reads the null character, so
  the string is returned as it is.
\<close>

definition expandTilde :: "sys \<Rightarrow> string \<Rightarrow> string" where
  "expandTilde s p =
     (case p of
        [] \<Rightarrow> []
      | c # rest \<Rightarrow> if c = CHR ''~'' then home_path s @ rest else p)"

text \<open>shared.cpp, lines 96-100.\<close>

definition getConfigFilePath :: "sys \<Rightarrow> path" where
  "getConfigFilePath s = config_location s @ ''/appimagelauncher.cfg''"

text \<open>The loop of \<open>getConfig\<close> over the keys that hold a path (lines 161-168).\<close>

fun expandConfigPaths :: "sys \<Rightarrow> string list \<Rightarrow> (string \<Rightarrow> string option) \<Rightarrow> (string \<Rightarrow> string option)" where
  "expandConfigPaths s [] rv = rv"
| "expandConfigPaths s (keyContainingPath # rest) rv =
     (let fullKey = ''AppImageLauncher/'' @ keyContainingPath in
      expandConfigPaths s rest
        (case rv fullKey of
           None \<Rightarrow> rv
         | Some v \<Rightarrow> rv(fullKey \<mapsto> expandTilde s v)))"

text \<open>
  shared.cpp, lines 146-171: \<open>None\<close> is the null pointer, \<open>Some rv\<close> the settings object
  with its values by key.
\<close>

definition getConfig :: "sys \<Rightarrow> world \<Rightarrow> (string \<Rightarrow> string option) option" where
  "getConfig s w =
     (let configFilePath = getConfigFilePath s in
      if \<not> qfile_exists w configFilePath then None
      else Some (expandConfigPaths s [''destination''] (qsettings_ini s configFilePath)))"

text \<open>shared.cpp, lines 227-238: the path the returned \<open>QDir\<close> is made from.\<close>

definition integratedAppImagesDestination :: "sys \<Rightarrow> world \<Rightarrow> string" where
  "integratedAppImagesDestination s w =
     (case getConfig s w of
        None \<Rightarrow> default_integration_destination s
      | Some config \<Rightarrow>
          (case config ''AppImageLauncher/destination'' of
             Some v \<Rightarrow> v
           | None \<Rightarrow> default_integration_destination s))"

section \<open>Headless detection and message boxes\<close>

text \<open>shared.cpp, lines 174-205.\<close>

definition isHeadless :: "sys \<Rightarrow> world \<Rightarrow> (failure + bool) \<times> world" where
  "isHeadless s w =
     (if getenv s ''_FORCE_HEADLESS'' \<noteq> None then (Inr True, w)
      else let w1 = log_event (ERunProcess ''xhost'') w; exitCode = xhost_exit_code s in
        if exitCode = 255 then (Inr (getenv s ''DISPLAY'' = None), w1)
        else if exitCode = 0 \<or> exitCode = 1 then (Inr (exitCode = 1), w1)
        else (Inl (RuntimeError ''Headless detection failed: unexpected exit code from xhost''), w1))"

text \<open>shared.cpp, lines 208-217.\<close>

definition displayMessageBox :: "sys \<Rightarrow> string \<Rightarrow> string \<Rightarrow> icon \<Rightarrow> world \<Rightarrow> (failure + unit) \<times> world" where
  "displayMessageBox s title message icn w =
     (case isHeadless s w of
        (Inl e, w1) \<Rightarrow> (Inl e, w1)
      | (Inr headless, w1) \<Rightarrow>
          if headless then (Inr (), log_event (EStderr (title @ '': '' @ message)) w1)
          else (Inr (), log_event (EMessageBox icn title message) w1))"

text \<open>shared.cpp, lines 219-225.\<close>

definition displayError :: "sys \<Rightarrow> string \<Rightarrow> world \<Rightarrow> (failure + unit) \<times> world" where
  "displayError s message w = displayMessageBox s ''Error'' message Critical w"

definition displayWarning :: "sys \<Rightarrow> string \<Rightarrow> world \<Rightarrow> (failure + unit) \<times> world" where
  "displayWarning s message w = displayMessageBox s ''Warning'' message Warning w"

section \<open>AppImage type and digest\<close>

text \<open>shared.cpp, lines 887-890: \<open>type\<close> is a C \<open>int\<close>, compared as a signed number.\<close>

definition isAppImage :: "sys \<Rightarrow> path \<Rightarrow> bool" where
  "isAppImage s p = (let type = appimage_get_type s p in 0 <s type \<and> type \<le>s 2)"

text \<open>
  shared.cpp, lines 686-726. \<open>file.read\<close> returns the number of bytes read, 0 at the end
  of the file and -1 on an error, with the buffer as the read left it; the code gives up
  on 0 only.
\<close>

definition getAppImageDigestMd5 :: "sys \<Rightarrow> path \<Rightarrow> string" where
  "getAppImageDigestMd5 s p =
     (if appimage_get_type s p \<noteq> 2 then []
      else
        (case appimage_get_elf_section_offset_and_length s p ''.digest_md5'' of
           (rv, offset, len) \<Rightarrow>
             if rv \<and> offset \<noteq> 0 \<and> len \<noteq> 0 then
               (if \<not> file_open_readonly s p then []
                else if \<not> file_seek s p offset then []
                else (case file_read s p offset 16 of
                        (n, buffer) \<Rightarrow>
                          if n = 0 then [] else appimage_hexlify s buffer))
             else
               (case appimage_type2_digest_md5 s p of
                  (ok, buffer) \<Rightarrow> if \<not> ok then [] else appimage_hexlify s buffer)))"

text \<open>shared.cpp, lines 240-267.\<close>

definition buildPathToIntegratedAppImage :: "sys \<Rightarrow> path \<Rightarrow> world \<Rightarrow> string" where
  "buildPathToIntegratedAppImage s pathToAppImage w =
     (let digest = getAppImageDigestMd5 s pathToAppImage;
          baseName = completeBaseName pathToAppImage;
          baseName1 =
            (if digest \<noteq> [] then
               (let digestSuffix = ''_'' @ digest in
                if \<not> contains pathToAppImage digestSuffix then baseName @ ''_'' @ digest
                else baseName)
             else baseName);
          fileName = baseName1;
          fileName1 =
            (if qfileinfo_suffix pathToAppImage \<noteq> []
             then fileName @ ''.'' @ qfileinfo_suffix pathToAppImage
             else fileName)
      in qdir_path s (integratedAppImagesDestination s w) @ ''/'' @ fileName1)"

section \<open>Collisions of desktop entry names\<close>

text \<open>
  A \<open>std::map\<close> from strings to strings is an association list with one entry per key
  (\<open>AList.update\<close> assigns, \<open>AList.delete\<close> erases, \<open>map_of\<close> finds); the map is iterated
  in the order of its keys (\<open>sort_key fst\<close>).
\<close>

text \<open>The body of the loops of \<open>findCollisions\<close> (lines 279-299) for one file name.\<close>

definition findCollisionsStep :: "world \<Rightarrow> string \<Rightarrow> path \<Rightarrow> (string \<times> string) list \<Rightarrow> (string \<times> string) list" where
  "findCollisionsStep w currentNameEntry filename collisions =
     (if \<not> qfileinfo_isFile w filename \<or> \<not> endsWith filename ''.desktop'' then collisions
      else (case g_key_file_load_from_file w filename of
              None \<Rightarrow> collisions
            | Some desktopFile \<Rightarrow>
                (case g_key_file_get_string desktopFile ''Desktop Entry'' ''Name'' of
                   None \<Rightarrow> collisions
                 | Some nameEntry \<Rightarrow>
                     if startsWith (trimmed nameEntry) (trimmed currentNameEntry)
                     then AList.update filename nameEntry collisions
                     else collisions)))"

text \<open>shared.cpp, lines 269-304.\<close>

definition findCollisions :: "sys \<Rightarrow> world \<Rightarrow> string \<Rightarrow> (string \<times> string) list" where
  "findCollisions s w currentNameEntry =
     (let directories = [''/usr/share/applications/'', generic_data_location s @ ''/applications/'']
      in fold (\<lambda>directory collisions.
                 fold (findCollisionsStep w currentNameEntry) (qdir_iterator w directory) collisions)
           directories [])"

text \<open>
  The loop of \<open>installDesktopFileAndIcons\<close> over the collisions (lines 402-412):
  \<open>currentNumber\<close> and \<open>num\<close> are \<open>unsigned int\<close>, and \<open>num\<close> is read from \<open>captured(0)\<close>.
\<close>

fun collisionNumber :: "(string \<times> string) list \<Rightarrow> 32 word \<Rightarrow> 32 word" where
  "collisionNumber [] currentNumber = currentNumber"
| "collisionNumber (collision # rest) currentNumber =
     (let currentNameEntry = snd collision in
      case regex_match currentNameEntry of
        None \<Rightarrow> collisionNumber rest currentNumber
      | Some (captured0, captured1) \<Rightarrow>
          (let num = toUInt captured0 in
           collisionNumber rest (if currentNumber \<le> num then num + 1 else currentNumber)))"

text \<open>
  Lines 385-417, with collision resolution enabled: \<open>nameEntry\<close> is the Name of the new
  desktop file (the empty string when the file has none). Erasing the iterator that
  \<open>find\<close> returns is undefined when the own desktop file is not among the collisions.
\<close>

definition resolveNameCollisions :: "sys \<Rightarrow> world \<Rightarrow> string \<Rightarrow> path \<Rightarrow> keyfile \<Rightarrow> failure + keyfile" where
  "resolveNameCollisions s w nameEntry desktopFilePath desktopFile =
     (let collisions = findCollisions s w nameEntry in
      case map_of collisions desktopFilePath of
        None \<Rightarrow> Inl InvalidIterator
      | Some own \<Rightarrow>
          (let collisions1 = AList.delete desktopFilePath collisions in
           if collisions1 \<noteq> [] then
             (let currentNumber = collisionNumber (sort_key fst collisions1) 1;
                  newName = nameEntry @ '' ('' @ qstring_number currentNumber @ '')''
              in Inr (g_key_file_set_string desktopFile ''Desktop Entry'' ''Name'' newName))
           else Inr desktopFile))"

section \<open>Installing the desktop file\<close>

text \<open>shared.cpp, lines 325-332.\<close>

definition getOwnBinaryPath :: "sys \<Rightarrow> failure + path" where
  "getOwnBinaryPath s =
     (case own_binary_realpath s of
        None \<Rightarrow> Inl (RuntimeError ''Could not detect path to own binary; something must be horribly broken'')
      | Some p \<Rightarrow> Inr p)"

text \<open>\<open>displayError(message); return false;\<close>\<close>

definition errorReturnFalse :: "sys \<Rightarrow> string \<Rightarrow> world \<Rightarrow> (failure + bool) \<times> world" where
  "errorReturnFalse s message w =
     (case displayError s message w of
        (Inl e, w1) \<Rightarrow> (Inl e, w1)
      | (Inr u, w1) \<Rightarrow> (Inr False, w1))"

text \<open>
  Lines 419-611, for the build that defines neither \<open>ENABLE_UPDATE_HELPER\<close> nor
  \<open>BUILD_LITE\<close>: the Remove action, the Actions and version keys, saving the file, making
  it executable and the signal to the icon loader. The lambda \<open>handleError\<close> (lines
  368-372) reads \<open>(*error)->message\<close> where \<open>error\<close> holds the null pointer.
\<close>

definition writeDesktopFile :: "sys \<Rightarrow> path \<Rightarrow> path \<Rightarrow> keyfile \<Rightarrow> world \<Rightarrow> (failure + bool) \<times> world" where
  "writeDesktopFile s pathToAppImage desktopFilePath desktopFile w =
     (case getOwnBinaryPath s of
        Inl e \<Rightarrow> (Inl e, w)
      | Inr ownBinaryPath \<Rightarrow>
          (let ownBinaryDirPath = absolute_dir_path s ownBinaryPath;
               installPrefixPath = absolute_dir_path s ownBinaryDirPath;
               privateLibDirPath = installPrefixPath @ ''/'' @ private_libdir s;
               privateLibDirPath1 =
                 (if \<not> qdir_exists w privateLibDirPath then ownBinaryDirPath @ ''/../ui''
                  else privateLibDirPath);
               helperIconName = ''AppImageLauncher'';
               removeSectionName = ''Desktop Action Remove'';
               kf1 = g_key_file_set_string desktopFile removeSectionName ''Name''
                       ''Remove application from system'';
               kf2 = g_key_file_set_string kf1 removeSectionName ''Icon'' helperIconName;
               removeExecPath = privateLibDirPath1 @ ''/remove'' @ '' '' @ [CHR 0x22]
                                  @ pathToAppImage @ [CHR 0x22];
               kf3 = g_key_file_set_string kf2 removeSectionName ''Exec'' removeExecPath;
               kf4 = g_key_file_set_string_list kf3 ''Desktop Entry'' ''Actions'' [''Remove''];
               version = remove_all ''version '' 0 (application_version s);
               kf5 = g_key_file_set_string kf4 ''Desktop Entry'' ''X-AppImageLauncher-Version'' version
           in case g_key_file_save_to_file s kf5 desktopFilePath w of
                (False, w1) \<Rightarrow> (Inl NullDereference, w1)
              | (True, w1) \<Rightarrow>
                  (let w2 = snd (makeExecutable s desktopFilePath w1);
                       w3 = log_event EDBusIconChanged w2
                   in (Inr True, w3))))"

text \<open>Lines 379-417: the Name entry and the collisions, then the rest of the function.\<close>

definition installLoadedDesktopFile :: "sys \<Rightarrow> path \<Rightarrow> bool \<Rightarrow> path \<Rightarrow> keyfile \<Rightarrow> world \<Rightarrow> (failure + bool) \<times> world" where
  "installLoadedDesktopFile s pathToAppImage resolveCollisions desktopFilePath desktopFile w =
     (let nameEntry = g_key_file_get_string desktopFile ''Desktop Entry'' ''Name'' in
      case (case nameEntry of
              None \<Rightarrow> displayWarning s ''AppImage has invalid desktop file'' w
            | Some n \<Rightarrow> (Inr (), w)) of
        (Inl e, w1) \<Rightarrow> (Inl e, w1)
      | (Inr u, w1) \<Rightarrow>
          (let name = (case nameEntry of None \<Rightarrow> [] | Some n \<Rightarrow> n) in
           case (if resolveCollisions
                 then resolveNameCollisions s w1 name desktopFilePath desktopFile
                 else Inr desktopFile) of
             Inl e \<Rightarrow> (Inl e, w1)
           | Inr desktopFile1 \<Rightarrow> writeDesktopFile s pathToAppImage desktopFilePath desktopFile1 w1))"

text \<open>shared.cpp, lines 334-611.\<close>

definition installDesktopFileAndIcons :: "sys \<Rightarrow> path \<Rightarrow> bool \<Rightarrow> world \<Rightarrow> (failure + bool) \<times> world" where
  "installDesktopFileAndIcons s pathToAppImage resolveCollisions w =
     (case appimage_register_in_system s pathToAppImage w of
        (rc, wr) \<Rightarrow>
          (let w1 = wr\<lparr>trace := trace w @ [ERegister pathToAppImage]\<rparr> in
           if rc \<noteq> 0
           then errorReturnFalse s ''Failed to register AppImage in system via libappimage'' w1
           else (case appimage_registered_desktop_file_path s w1 pathToAppImage of
                   None \<Rightarrow> errorReturnFalse s ''Failed to find integrated desktop file'' w1
                 | Some desktopFilePath \<Rightarrow>
                     if \<not> qfile_exists w1 desktopFilePath
                     then errorReturnFalse s
                            (''Couldn'' @ [CHR 0x27] @ ''t find integrated AppImage'' @ [CHR 0x27]
                               @ ''s desktop file'') w1
                     else (case g_key_file_load_from_file w1 desktopFilePath of
                             None \<Rightarrow> (Inl NullDereference, w1)
                           | Some desktopFile \<Rightarrow>
                               installLoadedDesktopFile s pathToAppImage resolveCollisions
                                 desktopFilePath desktopFile w1))))"

text \<open>shared.cpp, lines 613-615.\<close>

definition updateDesktopFileAndIcons :: "sys \<Rightarrow> path \<Rightarrow> world \<Rightarrow> (failure + bool) \<times> world" where
  "updateDesktopFileAndIcons s pathToAppImage w = installDesktopFileAndIcons s pathToAppImage True w"

section \<open>Integration\<close>





section \<open>Cleaning up old desktop files\<close>

text \<open>Lines 797-807: the icons whose complete base name starts with the Icon value.\<close>

definition removeIcons :: "sys \<Rightarrow> string \<Rightarrow> world \<Rightarrow> world" where
  "removeIcons s iconValue w =
     fold (\<lambda>p w1. if startsWith (completeBaseName p) iconValue then snd (qfile_remove s p w1) else w1)
       (qdir_iterator_subdirectories w ''~/.local/share/icons/'') w"

text \<open>
  The path whose existence decides (lines 775-781): the TryExec value, or the first part
  of the Exec value split at spaces.
\<close>

definition referencedAppImagePath :: "string \<Rightarrow> string option \<Rightarrow> path" where
  "referencedAppImagePath execValue tryExecValue =
     (case tryExecValue of
        Some t \<Rightarrow> t
      | None \<Rightarrow> split_first CHR '' '' execValue)"

text \<open>The body of the loop of \<open>cleanUpOldDesktopIntegrationResources\<close> (lines 746-809).\<close>

definition cleanUpDesktopFile :: "sys \<Rightarrow> bool \<Rightarrow> path \<Rightarrow> string \<Rightarrow> world \<Rightarrow> world" where
  "cleanUpDesktopFile s verbose dirPath entry w =
     (let desktopFilePath = dirPath @ ''/'' @ entry in
      case g_key_file_load_from_file w desktopFilePath of
        None \<Rightarrow> w
      | Some desktopFile \<Rightarrow>
          (case g_key_file_get_string desktopFile ''Desktop Entry'' ''Exec'' of
             None \<Rightarrow> w
           | Some execValue \<Rightarrow>
               (let tryExecValue = g_key_file_get_string desktopFile ''Desktop Entry'' ''TryExec'';
                    appImagePath = referencedAppImagePath execValue tryExecValue
                in if \<not> qfile_exists w appImagePath then
                     (let w1 = (if verbose
                                then log_event (EStdout (''AppImage no longer exists, cleaning up resources: '' @ appImagePath)) w
                                else w);
                          w2 = (if verbose
                                then log_event (EStdout (''Removing desktop file: '' @ desktopFilePath)) w1
                                else w1);
                          w3 = snd (qfile_remove s desktopFilePath w2)
                      in case g_key_file_get_string desktopFile ''Desktop Entry'' ''Icon'' of
                           None \<Rightarrow> w3
                         | Some iconValue \<Rightarrow> removeIcons s iconValue w3)
                   else w)))"

text \<open>shared.cpp, lines 736-812.\<close>

definition cleanUpOldDesktopIntegrationResources :: "sys \<Rightarrow> bool \<Rightarrow> world \<Rightarrow> bool \<times> world" where
  "cleanUpOldDesktopIntegrationResources s verbose w =
     (let dirPath = generic_data_location s @ ''/applications'' in
      (True, fold (cleanUpDesktopFile s verbose dirPath)
               (qdir_entryList s w dirPath [''appimagekit_*.desktop'']) w))"

section \<open>Modification times\<close>

text \<open>shared.cpp, lines 814-822.\<close>

definition getMTime :: "sys \<Rightarrow> path \<Rightarrow> world \<Rightarrow> (failure + 64 word) \<times> world" where
  "getMTime s p w =
     (case sys_stat w p of
        None \<Rightarrow>
          (case displayError s (''Failed to call stat() on path:'' @ [CHR 0x0A, CHR 0x0A] @ p) w of
             (Inl e, w1) \<Rightarrow> (Inl e, w1)
           | (Inr u, w1) \<Rightarrow> (Inr (- 1), w1))
      | Some st \<Rightarrow> (Inr (st_mtime st), w))"

text \<open>
  shared.cpp, lines 824-837. A null \<open>desktopFilePath\<close> becomes the empty \<open>QString\<close> that
  \<open>getMTime\<close> takes.
\<close>

definition desktopFileHasBeenUpdatedSinceLastUpdate :: "sys \<Rightarrow> path \<Rightarrow> world \<Rightarrow> (failure + bool) \<times> world" where
  "desktopFileHasBeenUpdatedSinceLastUpdate s pathToAppImage w =
     (case getOwnBinaryPath s of
        Inl e \<Rightarrow> (Inl e, w)
      | Inr ownBinaryPath \<Rightarrow>
          (let desktopFilePath =
                 (case appimage_registered_desktop_file_path s w pathToAppImage of
                    None \<Rightarrow> []
                  | Some d \<Rightarrow> d)
           in case getMTime s ownBinaryPath w of
                (Inl e, w1) \<Rightarrow> (Inl e, w1)
              | (Inr ownBinaryMTime, w1) \<Rightarrow>
                  (case getMTime s desktopFilePath w1 of
                     (Inl e, w2) \<Rightarrow> (Inl e, w2)
                   | (Inr desktopFileMTime, w2) \<Rightarrow>
                       if desktopFileMTime <s 0 \<or> ownBinaryMTime <s 0 then (Inr False, w2)
                       else (Inr (ownBinaryMTime <s desktopFileMTime), w2))))"

section \<open>Notions used by the statements\<close>

text \<open>
  \<open>isHeadless\<close> returns a value, and throws nothing, exactly when \<open>_FORCE_HEADLESS\<close> is
  set or \<open>xhost\<close> exits with 255, 0 or 1.
\<close>

definition isHeadlessReturns :: "sys \<Rightarrow> bool" where
  "isHeadlessReturns s =
     (getenv s ''_FORCE_HEADLESS'' \<noteq> None \<or> xhost_exit_code s = 255 \<or>
      xhost_exit_code s = 0 \<or> xhost_exit_code s = 1)"

text \<open>
  The path that \<open>desktopFileHasBeenUpdatedSinceLastUpdate\<close> passes to \<open>getMTime\<close> for the
  registered desktop file: the empty path when libappimage finds none.
\<close>

definition registeredDesktopFile :: "sys \<Rightarrow> world \<Rightarrow> path \<Rightarrow> path" where
  "registeredDesktopFile s w p =
     (case appimage_registered_desktop_file_path s w p of None \<Rightarrow> [] | Some d \<Rightarrow> d)"

text \<open>What \<open>getMTime\<close> returns for a path: the time, -1, or the exception of \<open>isHeadless\<close>.\<close>

definition mtimeResult :: "sys \<Rightarrow> world \<Rightarrow> path \<Rightarrow> failure + 64 word" where
  "mtimeResult s w p =
     (case sys_stat w p of
        Some st \<Rightarrow> Inr (st_mtime st)
      | None \<Rightarrow> if isHeadlessReturns s then Inr (- 1)
                else Inl (RuntimeError ''Headless detection failed: unexpected exit code from xhost''))"

text \<open>
  The words of claim C3. The AppImage path that a desktop file references: the file
  parses and has an Exec key, and the path is its TryExec value when present and
  otherwise the part of its Exec value before the first space.
\<close>

definition referencedPath :: "world \<Rightarrow> path \<Rightarrow> path option" where
  "referencedPath w desktopFilePath =
     (case g_key_file_load_from_file w desktopFilePath of
        None \<Rightarrow> None
      | Some desktopFile \<Rightarrow>
          (case g_key_file_get_string desktopFile ''Desktop Entry'' ''Exec'' of
             None \<Rightarrow> None
           | Some execValue \<Rightarrow>
               (case g_key_file_get_string desktopFile ''Desktop Entry'' ''TryExec'' of
                  Some tryExecValue \<Rightarrow> Some tryExecValue
                | None \<Rightarrow> Some (takeWhile (\<lambda>c. c \<noteq> CHR '' '') execValue))))"

text \<open>A desktop file is stale when the path it references does not exist on disk.\<close>

definition staleDesktopFile :: "world \<Rightarrow> path \<Rightarrow> bool" where
  "staleDesktopFile w desktopFilePath =
     (case referencedPath w desktopFilePath of
        None \<Rightarrow> False
      | Some appImagePath \<Rightarrow> \<not> qfile_exists w appImagePath)"

text \<open>
  The world after the messages of the verbose mode and the removal of a stale desktop
  file (lines 787-793).
\<close>

definition staleRemoved :: "sys \<Rightarrow> bool \<Rightarrow> path \<Rightarrow> path \<Rightarrow> world \<Rightarrow> world" where
  "staleRemoved s verbose desktopFilePath appImagePath w =
     snd (qfile_remove s desktopFilePath
       (if verbose
        then log_event (EStdout (''Removing desktop file: '' @ desktopFilePath))
               (log_event (EStdout (''AppImage no longer exists, cleaning up resources: '' @ appImagePath)) w)
        else w))"

text \<open>
  The applications directory of the user and the names that
  \<open>cleanUpOldDesktopIntegrationResources\<close> lists in it (lines 737-746).
\<close>

definition applicationsDirPath :: "sys \<Rightarrow> path" where
  "applicationsDirPath s = generic_data_location s @ ''/applications''"

definition examinedEntries :: "sys \<Rightarrow> world \<Rightarrow> string list" where
  "examinedEntries s w = qdir_entryList s w (applicationsDirPath s) [''appimagekit_*.desktop'']"

section \<open>An example environment\<close>

text \<open>
  A desktop of one user with one AppImage in the integration directory; the theorems
  below are instantiated with it and with variations of it.
\<close>

definition example_world :: world where
  "example_world =
     \<lparr> fs = (\<lambda>p. if p = ''/home/user/Applications/app.AppImage''
                  then Some \<lparr>st_uid = 1000, st_gid = 1000, st_mode = 33188, st_mtime = 1500000000\<rparr>
                else if p = ''/usr/bin/AppImageLauncher''
                  then Some \<lparr>st_uid = 0, st_gid = 0, st_mode = 33261, st_mtime = 1600000000\<rparr>
                else None),
       keyfiles = (\<lambda>p. None),
       dirs = (\<lambda>d. []),
       subtree = (\<lambda>d. []),
       trace = [] \<rparr>"

definition example_sys :: sys where
  "example_sys =
     \<lparr> getuid = 1000, getgid = 1000,
       getenv = (\<lambda>v. if v = ''DISPLAY'' then Some '':0'' else None),
       xhost_exit_code = 0,
       home_path = ''/home/user'',
       config_location = ''/home/user/.config'',
       generic_data_location = ''/home/user/.local/share'',
       default_integration_destination = ''/home/user/Applications'',
       private_libdir = ''lib/appimagelauncher'',
       default_resolve_collisions = True,
       application_version = ''version 2.0'',
       own_binary_realpath = Some ''/usr/bin/AppImageLauncher'',
       chmod_permitted = (\<lambda>p. True),
       remove_permitted = (\<lambda>p. True),
       rename_permitted = (\<lambda>p q. True),
       save_stat = (\<lambda>p. Some \<lparr>st_uid = 1000, st_gid = 1000, st_mode = 33152, st_mtime = 1700000000\<rparr>),
       mkdir_stat = (\<lambda>p. None),
       copy_stat = (\<lambda>p q. None),
       qsettings_ini = (\<lambda>p k. None),
       qdir_path = (\<lambda>p. p),
       qdir_name_filter = (\<lambda>fl n. True),
       absolute_file_path = (\<lambda>p. p),
       absolute_dir_path = (\<lambda>p. rev (tl (dropWhile (\<lambda>c. c \<noteq> CHR ''/'') (rev p)))),
       appimage_get_type = (\<lambda>p. 2),
       appimage_register_in_system = (\<lambda>p w. (0, w)),
       appimage_registered_desktop_file_path = (\<lambda>w p. None),
       appimage_get_elf_section_offset_and_length = (\<lambda>p n. (False, 0, 0)),
       file_open_readonly = (\<lambda>p. True),
       file_seek = (\<lambda>p off. True),
       file_read = (\<lambda>p off n. (0, [])),
       appimage_type2_digest_md5 = (\<lambda>p. (False, [])),
       appimage_hexlify = (\<lambda>b. []),
       overwrite_click = Some No,
       copy_click = Some Cancel \<rparr>"

text \<open>
  A configuration file that sets the destination, the world in which that file exists,
  and a system on which every AppImage has the digest of the empty file.
\<close>

definition example_config :: "string \<Rightarrow> string option" where
  "example_config k = (if k = ''AppImageLauncher/destination'' then Some ''~/My~Apps'' else None)"

definition example_config_world :: world where
  "example_config_world =
     example_world\<lparr>fs := (fs example_world)(''/home/user/.config/appimagelauncher.cfg'' \<mapsto>
        \<lparr>st_uid = 1000, st_gid = 1000, st_mode = 33188, st_mtime = 1500000000\<rparr>)\<rparr>"

definition example_digest_sys :: sys where
  "example_digest_sys =
     example_sys\<lparr>appimage_type2_digest_md5 := (\<lambda>p. (True, replicate 16 0)),
                 appimage_hexlify := (\<lambda>b. ''d41d8cd98f00b204e9800998ecf8427e'')\<rparr>"

text \<open>
  A system on which the AppImage is registered with a desktop file, and the worlds in
  which the launcher and that desktop file have given modification times.
\<close>

definition example_desktop_file :: path where
  "example_desktop_file = ''/home/user/.local/share/applications/appimagekit_app.desktop''"

definition example_registered_sys :: sys where
  "example_registered_sys =
     example_sys\<lparr>appimage_registered_desktop_file_path := (\<lambda>w p. Some example_desktop_file)\<rparr>"

definition example_times_world :: "64 word \<Rightarrow> 64 word \<Rightarrow> world" where
  "example_times_world ownTime desktopTime =
     example_world\<lparr>fs := (fs example_world)
        (''/usr/bin/AppImageLauncher'' \<mapsto>
           \<lparr>st_uid = 0, st_gid = 0, st_mode = 33261, st_mtime = ownTime\<rparr>,
         example_desktop_file \<mapsto>
           \<lparr>st_uid = 1000, st_gid = 1000, st_mode = 33261, st_mtime = desktopTime\<rparr>)\<rparr>"


text \<open>
  A desktop on which an application named \<open>Foo (2)\<close> is integrated, and a second
  AppImage with the name \<open>Foo\<close> that libappimage has just registered.
\<close>

definition collision_sys :: sys where
  "collision_sys =
     example_sys\<lparr>appimage_registered_desktop_file_path :=
       (\<lambda>w p. Some ''/home/user/.local/share/applications/appimagekit_new-foo.desktop'')\<rparr>"

definition collision_world :: world where
  "collision_world =
     example_world\<lparr>
       fs := (fs example_world)
         (''/home/user/.local/share/applications/appimagekit_old-foo.desktop'' \<mapsto>
            \<lparr>st_uid = 1000, st_gid = 1000, st_mode = 33261, st_mtime = 1500000000\<rparr>,
          ''/home/user/.local/share/applications/appimagekit_new-foo.desktop'' \<mapsto>
            \<lparr>st_uid = 1000, st_gid = 1000, st_mode = 33261, st_mtime = 1600000000\<rparr>),
       keyfiles := (keyfiles example_world)
         (''/home/user/.local/share/applications/appimagekit_old-foo.desktop'' \<mapsto>
            [((''Desktop Entry'', ''Name''), ''Foo (2)''),
             ((''Desktop Entry'', ''Exec''), ''/home/user/Applications/foo_old.AppImage'')],
          ''/home/user/.local/share/applications/appimagekit_new-foo.desktop'' \<mapsto>
            [((''Desktop Entry'', ''Name''), ''Foo''),
             ((''Desktop Entry'', ''Exec''), ''/home/user/Applications/foo.AppImage'')]),
       dirs := (dirs example_world)
         (''/home/user/.local/share/applications/'' :=
            [''appimagekit_old-foo.desktop'', ''appimagekit_new-foo.desktop''])\<rparr>"

text \<open>
  An applications directory with the desktop file of the AppImage that exists, one that
  does not parse, one whose AppImage is gone, and one that is not of AppImageKit.
\<close>

definition cleanup_sys :: sys where
  "cleanup_sys =
     example_sys\<lparr>qdir_name_filter :=
       (\<lambda>filters n. startsWith n ''appimagekit_'' \<and> endsWith n ''.desktop'')\<rparr>"

definition cleanup_world :: world where
  "cleanup_world =
     example_world\<lparr>
       fs := (fs example_world)
         (''/home/user/.local/share/applications/appimagekit_app.desktop'' \<mapsto>
            \<lparr>st_uid = 1000, st_gid = 1000, st_mode = 33261, st_mtime = 1500000000\<rparr>,
          ''/home/user/.local/share/applications/appimagekit_broken.desktop'' \<mapsto>
            \<lparr>st_uid = 1000, st_gid = 1000, st_mode = 33261, st_mtime = 1500000000\<rparr>,
          ''/home/user/.local/share/applications/appimagekit_gone.desktop'' \<mapsto>
            \<lparr>st_uid = 1000, st_gid = 1000, st_mode = 33261, st_mtime = 1500000000\<rparr>,
          ''/home/user/.local/share/applications/other.desktop'' \<mapsto>
            \<lparr>st_uid = 1000, st_gid = 1000, st_mode = 33261, st_mtime = 1500000000\<rparr>),
       keyfiles := (keyfiles example_world)
         (''/home/user/.local/share/applications/appimagekit_app.desktop'' \<mapsto>
            [((''Desktop Entry'', ''Name''), ''App''),
             ((''Desktop Entry'', ''Exec''), ''/home/user/Applications/app.AppImage %U'')],
          ''/home/user/.local/share/applications/appimagekit_gone.desktop'' \<mapsto>
            [((''Desktop Entry'', ''Name''), ''Gone''),
             ((''Desktop Entry'', ''Exec''), ''/home/user/Applications/gone.AppImage %U''),
             ((''Desktop Entry'', ''TryExec''), ''/home/user/Applications/gone.AppImage'')],
          ''/home/user/.local/share/applications/other.desktop'' \<mapsto>
            [((''Desktop Entry'', ''Name''), ''Other''),
             ((''Desktop Entry'', ''Exec''), ''/opt/other/bin/other'')]),
       dirs := (dirs example_world)
         (''/home/user/.local/share/applications'' :=
            [''appimagekit_app.desktop'', ''appimagekit_broken.desktop'',
             ''appimagekit_gone.desktop'', ''other.desktop''])\<rparr>"

section \<open>The AppImage type (C10)\<close>

lemma sint_eq_1: "sint (t::32 word) = 1 \<longleftrightarrow> t = 1"
proof -
  have "sint (1::32 word) = 1" by simp
  then show ?thesis by (metis signed_word_eqI)
qed

lemma sint_eq_2: "sint (t::32 word) = 2 \<longleftrightarrow> t = 2"
proof -
  have "sint (2::32 word) = 2" by simp
  then show ?thesis by (metis signed_word_eqI)
qed

text \<open>
  Claim C10. For every path, \<open>isAppImage\<close> returns true if and only if the detected
  AppImage type is 1 or 2; zero, negative values and every other type yield false.
\<close>

theorem isAppImage_iff_type_1_or_2:
  "isAppImage s p \<longleftrightarrow> appimage_get_type s p = 1 \<or> appimage_get_type s p = 2"
proof -
  let ?t = "appimage_get_type s p"
  have "(0 < sint ?t \<and> sint ?t \<le> 2) \<longleftrightarrow> (sint ?t = 1 \<or> sint ?t = 2)"
    by auto
  then show ?thesis
    by (simp add: isAppImage_def Let_def word_sless_alt word_sle_eq sint_eq_1 sint_eq_2)
qed

section \<open>Clearing the execute bits (C6)\<close>

lemma sub_bit: "p = 2 ^ n \<Longrightarrow> (if x AND p \<noteq> 0 then (x::32 word) - p else x) = unset_bit n x"
  by (simp add: unset_bit_eq and_exp_eq_0_iff_not_bit)

lemma remove_perm_parts_unset:
  "remove_perm_parts [64, 8, 1] m = unset_bit 0 (unset_bit 3 (unset_bit 6 m))"
proof -
  have a: "(64::32 word) = 2 ^ 6" and b: "(8::32 word) = 2 ^ 3" and c: "(1::32 word) = 2 ^ 0"
    by simp_all
  show ?thesis
    by (simp only: remove_perm_parts.simps sub_bit [OF a] sub_bit [OF b] sub_bit [OF c])
qed

lemma or73: "(64::32 word) OR 8 OR 1 = 73"
  by simp

lemma remove_perm_parts_mask: "remove_perm_parts [64, 8, 1] m = m AND NOT 73"
proof -
  have "unset_bit 0 (unset_bit 3 (unset_bit 6 m)) = ((m AND NOT 64) AND NOT 8) AND NOT 1"
    by (simp add: unset_bit_eq_and_not)
  also have "\<dots> = m AND NOT (64 OR 8 OR 1)"
    by (simp add: and.assoc)
  finally show ?thesis
    by (simp only: remove_perm_parts_unset or73)
qed

lemma remove_perm_parts_bits:
  "bit (remove_perm_parts [64, 8, 1] m) n \<longleftrightarrow> bit m n \<and> n \<noteq> 6 \<and> n \<noteq> 3 \<and> n \<noteq> 0"
  unfolding remove_perm_parts_unset by (auto simp add: bit_unset_bit_iff)

lemma trace_sys_chmod: "trace (snd (sys_chmod s p m w)) = trace w @ [EChmod p m]"
  by (simp add: sys_chmod_def log_event_def Let_def split: option.split)

text \<open>
  Claim C6. When \<open>stat\<close> fails, \<open>makeNonExecutable\<close> returns false and calls no
  \<open>chmod\<close>. Otherwise its one effect is a \<open>chmod\<close> of the path whose mode is the stat'ed
  mode with the owner, group and other execute bits (bits 6, 3 and 0, the mask 0111)
  cleared and every other bit as it was; the result is that of this \<open>chmod\<close>.
\<close>

theorem makeNonExecutable_clears_execute_bits:
  "(sys_stat w p = None \<longrightarrow>
      fst (makeNonExecutable s p w) = False \<and>
      trace (snd (makeNonExecutable s p w)) = trace w @ [EStderr (''Failed to call stat() on '' @ p)]) \<and>
   (\<forall>st. sys_stat w p = Some st \<longrightarrow>
      (\<exists>m. trace (snd (makeNonExecutable s p w)) = trace w @ [EChmod p m] \<and>
           m = st_mode st AND NOT 73 \<and>
           (\<forall>n. bit m n \<longleftrightarrow> bit (st_mode st) n \<and> n \<noteq> 6 \<and> n \<noteq> 3 \<and> n \<noteq> 0)) \<and>
      makeNonExecutable s p w = sys_chmod s p (st_mode st AND NOT 73) w)"
proof (intro conjI impI allI)
  assume "sys_stat w p = None"
  then show "fst (makeNonExecutable s p w) = False"
    and "trace (snd (makeNonExecutable s p w)) = trace w @ [EStderr (''Failed to call stat() on '' @ p)]"
    by (simp_all add: makeNonExecutable_def log_event_def)
next
  fix st assume st: "sys_stat w p = Some st"
  have run: "makeNonExecutable s p w = sys_chmod s p (remove_perm_parts [64, 8, 1] (st_mode st)) w"
    using st by (simp add: makeNonExecutable_def)
  show "\<exists>m. trace (snd (makeNonExecutable s p w)) = trace w @ [EChmod p m] \<and>
           m = st_mode st AND NOT 73 \<and>
           (\<forall>n. bit m n \<longleftrightarrow> bit (st_mode st) n \<and> n \<noteq> 6 \<and> n \<noteq> 3 \<and> n \<noteq> 0)"
    using remove_perm_parts_bits [of "st_mode st"] remove_perm_parts_mask [of "st_mode st"]
    by (simp add: run trace_sys_chmod remove_perm_parts_mask del: remove_perm_parts.simps)
  show "makeNonExecutable s p w = sys_chmod s p (st_mode st AND NOT 73) w"
    by (simp only: run remove_perm_parts_mask)
qed

text \<open>
  The path \<open>/nowhere\<close> does not exist; the AppImage with mode 0100755 (33261) is
  changed to mode 0100644 (33188).
\<close>

theorem makeNonExecutable_clears_execute_bits_witness:
  "fst (makeNonExecutable example_sys ''/nowhere'' example_world) = False \<and>
   trace (snd (makeNonExecutable example_sys ''/home/user/Applications/app.AppImage''
     (example_world\<lparr>fs := (fs example_world)(''/home/user/Applications/app.AppImage'' \<mapsto>
        \<lparr>st_uid = 1000, st_gid = 1000, st_mode = 33261, st_mtime = 1500000000\<rparr>)\<rparr>))) =
     [EChmod ''/home/user/Applications/app.AppImage'' 33188]"
  using makeNonExecutable_clears_execute_bits [of example_world "''/nowhere''" example_sys]
    makeNonExecutable_clears_execute_bits [of "example_world\<lparr>fs := (fs example_world)(''/home/user/Applications/app.AppImage'' \<mapsto>
        \<lparr>st_uid = 1000, st_gid = 1000, st_mode = 33261, st_mtime = 1500000000\<rparr>)\<rparr>" "''/home/user/Applications/app.AppImage''" example_sys]
  by (simp add: sys_stat_def example_world_def trace_sys_chmod)

section \<open>Setting the execute bits (C5)\<close>

lemma or_73_set_bit: "(m :: 32 word) OR 73 = set_bit 0 (set_bit 3 (set_bit 6 m))"
proof -
  have "set_bit 0 (set_bit 3 (set_bit 6 m)) = ((m OR 64) OR 8) OR 1"
    by (simp add: set_bit_eq_or)
  also have "\<dots> = m OR (64 OR 8 OR 1)"
    by (simp add: or.assoc)
  finally show ?thesis
    by (simp only: or73)
qed

lemma bit_or_73:
  "bit ((m :: 32 word) OR 73) n \<longleftrightarrow> bit m n \<or> n = 0 \<or> n = 3 \<or> n = 6"
  unfolding or_73_set_bit by (auto simp add: bit_set_bit_iff dest: bit_imp_possible_bit)

lemma and_bit_test:
  "(m :: 32 word) AND 64 \<noteq> 0 \<longleftrightarrow> bit m 6"
  "(m :: 32 word) AND 8 \<noteq> 0 \<longleftrightarrow> bit m 3"
  "(m :: 32 word) AND 1 \<noteq> 0 \<longleftrightarrow> bit m 0"
  using and_exp_eq_0_iff_not_bit [of m 6] and_exp_eq_0_iff_not_bit [of m 3]
    and_exp_eq_0_iff_not_bit [of m 0]
  by simp_all

lemma makeExecutable_cases:
  "makeExecutable s p w =
     (case sys_stat w p of
        None \<Rightarrow> (False, log_event (EStderr (''Failed to call stat() on '' @ p)) w)
      | Some st \<Rightarrow>
          if executableForCaller s st then (True, w)
          else sys_chmod s p (st_mode st OR 73) w)"
  by (simp add: makeExecutable_def executableForCaller_def and_bit_test split: option.split)

text \<open>
  Claim C5. When \<open>stat\<close> fails, \<open>makeExecutable\<close> returns false. When the file is already
  executable for the caller, it returns true and leaves the world as it is: no \<open>chmod\<close>
  is called. Otherwise its one effect is a \<open>chmod\<close> of the path with the existing mode
  plus the three execute bits (mode OR 0111), and it returns what that \<open>chmod\<close> returns:
  true if and only if it succeeds.
\<close>

theorem makeExecutable_spec:
  "(sys_stat w p = None \<longrightarrow>
      fst (makeExecutable s p w) = False \<and>
      trace (snd (makeExecutable s p w)) = trace w @ [EStderr (''Failed to call stat() on '' @ p)]) \<and>
   (\<forall>st. sys_stat w p = Some st \<and> executableForCaller s st \<longrightarrow>
      makeExecutable s p w = (True, w)) \<and>
   (\<forall>st. sys_stat w p = Some st \<and> \<not> executableForCaller s st \<longrightarrow>
      trace (snd (makeExecutable s p w)) = trace w @ [EChmod p (st_mode st OR 73)] \<and>
      (\<forall>n. bit (st_mode st OR 73) n \<longleftrightarrow> bit (st_mode st) n \<or> n = 0 \<or> n = 3 \<or> n = 6) \<and>
      makeExecutable s p w = sys_chmod s p (st_mode st OR 73) w)"
proof (intro conjI impI allI)
  assume "sys_stat w p = None"
  then show "fst (makeExecutable s p w) = False"
    and "trace (snd (makeExecutable s p w)) = trace w @ [EStderr (''Failed to call stat() on '' @ p)]"
    by (simp_all add: makeExecutable_cases log_event_def)
next
  fix st assume "sys_stat w p = Some st \<and> executableForCaller s st"
  then show "makeExecutable s p w = (True, w)"
    by (simp add: makeExecutable_cases)
next
  fix st n assume a: "sys_stat w p = Some st \<and> \<not> executableForCaller s st"
  then have run: "makeExecutable s p w = sys_chmod s p (st_mode st OR 73) w"
    by (simp add: makeExecutable_cases)
  show "trace (snd (makeExecutable s p w)) = trace w @ [EChmod p (st_mode st OR 73)]"
    by (simp add: run trace_sys_chmod)
  show "bit (st_mode st OR 73) n \<longleftrightarrow> bit (st_mode st) n \<or> n = 0 \<or> n = 3 \<or> n = 6"
    by (rule bit_or_73)
  show "makeExecutable s p w = sys_chmod s p (st_mode st OR 73) w"
    by (rule run)
qed

text \<open>
  \<open>/nowhere\<close> does not exist, the launcher (mode 0100755) is executable for everyone,
  and the AppImage (mode 0100644, owned by the caller) gets mode 0100755.
\<close>

theorem makeExecutable_spec_witness:
  "fst (makeExecutable example_sys ''/nowhere'' example_world) = False \<and>
   makeExecutable example_sys ''/usr/bin/AppImageLauncher'' example_world = (True, example_world) \<and>
   trace (snd (makeExecutable example_sys ''/home/user/Applications/app.AppImage'' example_world)) =
     [EChmod ''/home/user/Applications/app.AppImage'' 33261] \<and>
   fst (makeExecutable example_sys ''/home/user/Applications/app.AppImage'' example_world) = True"
  using makeExecutable_spec [of example_world "''/nowhere''" example_sys]
    makeExecutable_spec [of example_world "''/usr/bin/AppImageLauncher''" example_sys]
    makeExecutable_spec [of example_world "''/home/user/Applications/app.AppImage''" example_sys]
  by (simp add: sys_stat_def example_world_def example_sys_def executableForCaller_def
      trace_sys_chmod sys_chmod_def log_event_def)

section \<open>Headless detection (C7)\<close>

lemma isHeadless_forced:
  "getenv s ''_FORCE_HEADLESS'' \<noteq> None \<Longrightarrow> isHeadless s w = (Inr True, w)"
  by (simp add: isHeadless_def)

lemma isHeadless_xhost:
  "getenv s ''_FORCE_HEADLESS'' = None \<Longrightarrow>
   isHeadless s w =
     ((if xhost_exit_code s = 255 then Inr (getenv s ''DISPLAY'' = None)
       else if xhost_exit_code s = 0 then Inr False
       else if xhost_exit_code s = 1 then Inr True
       else Inl (RuntimeError ''Headless detection failed: unexpected exit code from xhost'')),
      log_event (ERunProcess ''xhost'') w)"
  by (simp add: isHeadless_def Let_def)

text \<open>
  Claim C7. \<open>isHeadless\<close> returns true whenever \<open>_FORCE_HEADLESS\<close> is set, without running
  anything. Otherwise it runs \<open>xhost\<close>: for exit code 255 it returns true if and only if
  \<open>DISPLAY\<close> is unset, for exit code 0 false, for exit code 1 true, and for every other
  exit code it throws a runtime error and returns no value.
\<close>

theorem isHeadless_spec:
  "(getenv s ''_FORCE_HEADLESS'' \<noteq> None \<longrightarrow> isHeadless s w = (Inr True, w)) \<and>
   (getenv s ''_FORCE_HEADLESS'' = None \<longrightarrow>
      trace (snd (isHeadless s w)) = trace w @ [ERunProcess ''xhost''] \<and>
      (xhost_exit_code s = 255 \<longrightarrow> fst (isHeadless s w) = Inr (getenv s ''DISPLAY'' = None)) \<and>
      (xhost_exit_code s = 0 \<longrightarrow> fst (isHeadless s w) = Inr False) \<and>
      (xhost_exit_code s = 1 \<longrightarrow> fst (isHeadless s w) = Inr True) \<and>
      (xhost_exit_code s \<noteq> 255 \<and> xhost_exit_code s \<noteq> 0 \<and> xhost_exit_code s \<noteq> 1 \<longrightarrow>
         fst (isHeadless s w) =
           Inl (RuntimeError ''Headless detection failed: unexpected exit code from xhost'')))"
  by (simp add: isHeadless_forced isHeadless_xhost log_event_def)

theorem isHeadless_spec_witness:
  "isHeadless (example_sys\<lparr>getenv := (\<lambda>v. if v = ''_FORCE_HEADLESS'' then Some ''1'' else None)\<rparr>)
     example_world = (Inr True, example_world) \<and>
   fst (isHeadless (example_sys\<lparr>xhost_exit_code := 255\<rparr>) example_world) = Inr False \<and>
   fst (isHeadless (example_sys\<lparr>xhost_exit_code := 255, getenv := (\<lambda>v. None)\<rparr>) example_world) = Inr True \<and>
   fst (isHeadless example_sys example_world) = Inr False \<and>
   fst (isHeadless (example_sys\<lparr>xhost_exit_code := 1\<rparr>) example_world) = Inr True \<and>
   fst (isHeadless (example_sys\<lparr>xhost_exit_code := 2\<rparr>) example_world) =
     Inl (RuntimeError ''Headless detection failed: unexpected exit code from xhost'') \<and>
   trace (snd (isHeadless example_sys example_world)) = [ERunProcess ''xhost'']"
  using isHeadless_spec [of "example_sys\<lparr>getenv := (\<lambda>v. if v = ''_FORCE_HEADLESS'' then Some ''1'' else None)\<rparr>" example_world]
    isHeadless_spec [of "example_sys\<lparr>xhost_exit_code := 255\<rparr>" example_world]
    isHeadless_spec [of "example_sys\<lparr>xhost_exit_code := 255, getenv := (\<lambda>v. None)\<rparr>" example_world]
    isHeadless_spec [of example_sys example_world]
    isHeadless_spec [of "example_sys\<lparr>xhost_exit_code := 1\<rparr>" example_world]
    isHeadless_spec [of "example_sys\<lparr>xhost_exit_code := 2\<rparr>" example_world]
  by (simp add: example_sys_def example_world_def)

section \<open>The configuration file (C8)\<close>

lemma expandTilde_tilde: "expandTilde s (CHR ''~'' # rest) = home_path s @ rest"
  by (simp add: expandTilde_def)

lemma expandTilde_other: "c \<noteq> CHR ''~'' \<Longrightarrow> expandTilde s (c # rest) = c # rest"
  by (simp add: expandTilde_def)

lemma getConfig_missing:
  "\<not> qfile_exists w (getConfigFilePath s) \<Longrightarrow> getConfig s w = None"
  by (simp add: getConfig_def)

lemma getConfig_present:
  "qfile_exists w (getConfigFilePath s) \<Longrightarrow>
   getConfig s w =
     Some (case qsettings_ini s (getConfigFilePath s) ''AppImageLauncher/destination'' of
             None \<Rightarrow> qsettings_ini s (getConfigFilePath s)
           | Some v \<Rightarrow> (qsettings_ini s (getConfigFilePath s))
                          (''AppImageLauncher/destination'' \<mapsto> expandTilde s v))"
  by (simp add: getConfig_def Let_def)

text \<open>
  Claim C8. \<open>getConfig\<close> returns the null pointer whenever the configuration file does
  not exist, and \<open>integratedAppImagesDestination\<close> is then the default integration
  destination. When the file exists and holds a value for \<open>AppImageLauncher/destination\<close>,
  the settings object that is returned holds that value expanded by \<open>expandTilde\<close>
  (every other key as in the file), and the destination is the expanded value.
  \<open>expandTilde\<close> replaces a tilde in the first position by the home directory and leaves
  a string that starts with another character as it is, tildes in it included.
\<close>

theorem getConfig_spec:
  "(\<not> qfile_exists w (getConfigFilePath s) \<longrightarrow>
      getConfig s w = None \<and>
      integratedAppImagesDestination s w = default_integration_destination s) \<and>
   (\<forall>v. qfile_exists w (getConfigFilePath s) \<and>
        qsettings_ini s (getConfigFilePath s) ''AppImageLauncher/destination'' = Some v \<longrightarrow>
        (\<exists>rv. getConfig s w = Some rv \<and>
              rv ''AppImageLauncher/destination'' = Some (expandTilde s v) \<and>
              (\<forall>k. k \<noteq> ''AppImageLauncher/destination'' \<longrightarrow>
                   rv k = qsettings_ini s (getConfigFilePath s) k)) \<and>
        integratedAppImagesDestination s w = expandTilde s v) \<and>
   (\<forall>rest. expandTilde s (CHR ''~'' # rest) = home_path s @ rest) \<and>
   (\<forall>c rest. c \<noteq> CHR ''~'' \<longrightarrow> expandTilde s (c # rest) = c # rest)"
proof (intro conjI allI impI)
  assume "\<not> qfile_exists w (getConfigFilePath s)"
  then show "getConfig s w = None"
    and "integratedAppImagesDestination s w = default_integration_destination s"
    by (simp_all add: integratedAppImagesDestination_def getConfig_missing)
next
  fix v
  assume a: "qfile_exists w (getConfigFilePath s) \<and>
        qsettings_ini s (getConfigFilePath s) ''AppImageLauncher/destination'' = Some v"
  then show "\<exists>rv. getConfig s w = Some rv \<and>
              rv ''AppImageLauncher/destination'' = Some (expandTilde s v) \<and>
              (\<forall>k. k \<noteq> ''AppImageLauncher/destination'' \<longrightarrow>
                   rv k = qsettings_ini s (getConfigFilePath s) k)"
    by (simp add: getConfig_present)
  from a show "integratedAppImagesDestination s w = expandTilde s v"
    by (simp add: integratedAppImagesDestination_def getConfig_present)
next
  fix rest show "expandTilde s (CHR ''~'' # rest) = home_path s @ rest"
    by (rule expandTilde_tilde)
next
  fix c rest assume "c \<noteq> CHR ''~''"
  then show "expandTilde s (c # rest) = c # rest"
    by (rule expandTilde_other)
qed

text \<open>
  Without a configuration file the destination is the default; with the destination
  \<open>~/My~Apps\<close> configured, only the first tilde is replaced.
\<close>

theorem getConfig_spec_witness:
  "getConfig example_sys example_world = None \<and>
   integratedAppImagesDestination example_sys example_world = ''/home/user/Applications'' \<and>
   integratedAppImagesDestination (example_sys\<lparr>qsettings_ini := (\<lambda>p. example_config)\<rparr>)
     example_config_world = ''/home/user/My~Apps'' \<and>
   expandTilde example_sys ''a~b'' = ''a~b''"
  using getConfig_spec [of example_world example_sys]
    getConfig_spec [of example_config_world "example_sys\<lparr>qsettings_ini := (\<lambda>p. example_config)\<rparr>"]
  by (simp add: example_sys_def example_world_def example_config_world_def example_config_def
      qfile_exists_def sys_stat_def getConfigFilePath_def expandTilde_def)

section \<open>The path of the integrated AppImage (C9)\<close>

lemma contains_append_left: "contains ys sub \<Longrightarrow> contains (xs @ ys) sub"
  by (induction xs) simp_all

lemma startsWith_append: "startsWith (sub @ zs) sub"
  by (simp add: startsWith_def)

lemma contains_prefix: "contains (sub @ zs) sub"
proof (cases "sub @ zs")
  case Nil
  then show ?thesis by simp
next
  case (Cons a list)
  have "startsWith (sub @ zs) sub" by (rule startsWith_append)
  then show ?thesis by (simp add: Cons)
qed

lemma contains_middle: "contains (xs @ sub @ zs) sub"
  by (rule contains_append_left) (rule contains_prefix)

text \<open>
  Claim C9. \<open>buildPathToIntegratedAppImage\<close> returns the path of the integration
  destination directory, a slash, the complete base name of the source file, then an
  underscore and the MD5 digest if the digest is not empty and the source path does not
  contain that digest suffix, then a dot and the final suffix of the source file if it has
  one. So a path that contains the digest suffix gets no digest appended; after a digest
  was appended the result contains the digest suffix, and building the path of the result
  (a file with the same digest) does not append the digest a second time.
\<close>

theorem buildPathToIntegratedAppImage_spec:
  "buildPathToIntegratedAppImage s p w =
     qdir_path s (integratedAppImagesDestination s w) @ ''/'' @ completeBaseName p @
       (if getAppImageDigestMd5 s p \<noteq> [] \<and> \<not> contains p (''_'' @ getAppImageDigestMd5 s p)
        then ''_'' @ getAppImageDigestMd5 s p else []) @
       (if qfileinfo_suffix p \<noteq> [] then ''.'' @ qfileinfo_suffix p else []) \<and>
   (contains p (''_'' @ getAppImageDigestMd5 s p) \<longrightarrow>
      buildPathToIntegratedAppImage s p w =
        qdir_path s (integratedAppImagesDestination s w) @ ''/'' @ completeBaseName p @
          (if qfileinfo_suffix p \<noteq> [] then ''.'' @ qfileinfo_suffix p else [])) \<and>
   (getAppImageDigestMd5 s p \<noteq> [] \<and> \<not> contains p (''_'' @ getAppImageDigestMd5 s p) \<longrightarrow>
      contains (buildPathToIntegratedAppImage s p w) (''_'' @ getAppImageDigestMd5 s p)) \<and>
   (getAppImageDigestMd5 s p \<noteq> [] \<and> \<not> contains p (''_'' @ getAppImageDigestMd5 s p) \<and>
    getAppImageDigestMd5 s (buildPathToIntegratedAppImage s p w) = getAppImageDigestMd5 s p \<longrightarrow>
      buildPathToIntegratedAppImage s (buildPathToIntegratedAppImage s p w) w =
        qdir_path s (integratedAppImagesDestination s w) @ ''/'' @
          completeBaseName (buildPathToIntegratedAppImage s p w) @
          (if qfileinfo_suffix (buildPathToIntegratedAppImage s p w) \<noteq> []
           then ''.'' @ qfileinfo_suffix (buildPathToIntegratedAppImage s p w) else []))"
proof -
  let ?d = "getAppImageDigestMd5 s p"
  let ?D = "qdir_path s (integratedAppImagesDestination s w)"
  have formula: "buildPathToIntegratedAppImage s q w =
     ?D @ ''/'' @ completeBaseName q @
       (if getAppImageDigestMd5 s q \<noteq> [] \<and> \<not> contains q (''_'' @ getAppImageDigestMd5 s q)
        then ''_'' @ getAppImageDigestMd5 s q else []) @
       (if qfileinfo_suffix q \<noteq> [] then ''.'' @ qfileinfo_suffix q else [])" for q
    by (simp add: buildPathToIntegratedAppImage_def Let_def)
  have appended: "contains (buildPathToIntegratedAppImage s p w) (''_'' @ ?d)"
    if "?d \<noteq> [] \<and> \<not> contains p (''_'' @ ?d)"
  proof -
    have "buildPathToIntegratedAppImage s p w =
        (?D @ ''/'' @ completeBaseName p) @ (''_'' @ ?d) @
          (if qfileinfo_suffix p \<noteq> [] then ''.'' @ qfileinfo_suffix p else [])"
      using that by (simp add: formula)
    then show ?thesis
      by (simp only: contains_middle)
  qed
  show ?thesis
  proof (intro conjI impI)
    show "buildPathToIntegratedAppImage s p w =
     ?D @ ''/'' @ completeBaseName p @
       (if ?d \<noteq> [] \<and> \<not> contains p (''_'' @ ?d) then ''_'' @ ?d else []) @
       (if qfileinfo_suffix p \<noteq> [] then ''.'' @ qfileinfo_suffix p else [])"
      by (rule formula)
  next
    assume "contains p (''_'' @ ?d)"
    then show "buildPathToIntegratedAppImage s p w =
        ?D @ ''/'' @ completeBaseName p @
          (if qfileinfo_suffix p \<noteq> [] then ''.'' @ qfileinfo_suffix p else [])"
      by (simp add: formula)
  next
    assume "?d \<noteq> [] \<and> \<not> contains p (''_'' @ ?d)"
    then show "contains (buildPathToIntegratedAppImage s p w) (''_'' @ ?d)"
      by (rule appended)
  next
    let ?q = "buildPathToIntegratedAppImage s p w"
    assume a: "?d \<noteq> [] \<and> \<not> contains p (''_'' @ ?d) \<and> getAppImageDigestMd5 s ?q = ?d"
    then have "contains ?q (''_'' @ getAppImageDigestMd5 s ?q)"
      using appended by simp
    then show "buildPathToIntegratedAppImage s ?q w =
        ?D @ ''/'' @ completeBaseName ?q @
          (if qfileinfo_suffix ?q \<noteq> [] then ''.'' @ qfileinfo_suffix ?q else [])"
      by (simp add: formula [of ?q])
  qed
qed


lemma example_digest:
  "getAppImageDigestMd5 example_digest_sys p = ''d41d8cd98f00b204e9800998ecf8427e''"
  by (simp add: getAppImageDigestMd5_def example_digest_sys_def example_sys_def)

lemma example_destination:
  "qdir_path example_digest_sys (integratedAppImagesDestination example_digest_sys example_world) =
     ''/home/user/Applications''"
  by (simp add: integratedAppImagesDestination_def getConfig_def getConfigFilePath_def
      qfile_exists_def sys_stat_def example_digest_sys_def example_sys_def example_world_def)

lemma example_names:
  "completeBaseName ''/tmp/app.AppImage'' = ''app''"
  "qfileinfo_suffix ''/tmp/app.AppImage'' = ''AppImage''"
  "completeBaseName ''/tmp/app_d41d8cd98f00b204e9800998ecf8427e.AppImage'' =
     ''app_d41d8cd98f00b204e9800998ecf8427e''"
  "qfileinfo_suffix ''/tmp/app_d41d8cd98f00b204e9800998ecf8427e.AppImage'' = ''AppImage''"
  by (simp_all add: completeBaseName_def qfileinfo_suffix_def qfileinfo_fileName_def)

lemma example_contains:
  "\<not> contains ''/tmp/app.AppImage'' ''_d41d8cd98f00b204e9800998ecf8427e''"
  "contains ''/tmp/app_d41d8cd98f00b204e9800998ecf8427e.AppImage''
     ''_d41d8cd98f00b204e9800998ecf8427e''"
  "contains ''/home/user/Applications/app_d41d8cd98f00b204e9800998ecf8427e.AppImage''
     ''_d41d8cd98f00b204e9800998ecf8427e''"
  by (simp_all add: startsWith_def)

theorem buildPathToIntegratedAppImage_spec_witness:
  "buildPathToIntegratedAppImage example_digest_sys ''/tmp/app.AppImage'' example_world =
     ''/home/user/Applications/app_d41d8cd98f00b204e9800998ecf8427e.AppImage'' \<and>
   buildPathToIntegratedAppImage example_digest_sys
     ''/tmp/app_d41d8cd98f00b204e9800998ecf8427e.AppImage'' example_world =
     ''/home/user/Applications/app_d41d8cd98f00b204e9800998ecf8427e.AppImage'' \<and>
   contains (buildPathToIntegratedAppImage example_digest_sys ''/tmp/app.AppImage'' example_world)
     ''_d41d8cd98f00b204e9800998ecf8427e''"
  using buildPathToIntegratedAppImage_spec [of example_digest_sys "''/tmp/app.AppImage''" example_world]
    buildPathToIntegratedAppImage_spec [of example_digest_sys
      "''/tmp/app_d41d8cd98f00b204e9800998ecf8427e.AppImage''" example_world]
  by (simp add: example_digest example_destination example_names example_contains
      del: contains.simps)

section \<open>Modification times (C2)\<close>

lemma isHeadless_fst:
  "fst (isHeadless s w) =
     (if isHeadlessReturns s
      then Inr (getenv s ''_FORCE_HEADLESS'' \<noteq> None \<or>
                (if xhost_exit_code s = 255 then getenv s ''DISPLAY'' = None
                 else xhost_exit_code s = 1))
      else Inl (RuntimeError ''Headless detection failed: unexpected exit code from xhost''))"
  by (auto simp add: isHeadless_def isHeadlessReturns_def Let_def)

lemma isHeadless_fs: "fs (snd (isHeadless s w)) = fs w"
  by (simp add: isHeadless_def Let_def log_event_def)

lemma displayMessageBox_fst:
  "fst (displayMessageBox s title message icn w) =
     (if isHeadlessReturns s then Inr ()
      else Inl (RuntimeError ''Headless detection failed: unexpected exit code from xhost''))"
  using isHeadless_fst [of s w]
  by (cases "isHeadless s w") (auto simp add: displayMessageBox_def split: sum.splits)

lemma displayMessageBox_fs: "fs (snd (displayMessageBox s title message icn w)) = fs w"
  using isHeadless_fs [of s w]
  by (cases "isHeadless s w") (auto simp add: displayMessageBox_def log_event_def split: sum.splits)

lemma getMTime_found:
  "sys_stat w p = Some st \<Longrightarrow> getMTime s p w = (Inr (st_mtime st), w)"
  by (simp add: getMTime_def)

lemma getMTime_failed_fst:
  "sys_stat w p = None \<Longrightarrow>
   fst (getMTime s p w) =
     (if isHeadlessReturns s then Inr (- 1)
      else Inl (RuntimeError ''Headless detection failed: unexpected exit code from xhost''))"
  using displayMessageBox_fst [of s "''Error''" "''Failed to call stat() on path:'' @ [CHR 0x0A, CHR 0x0A] @ p" Critical w]
  by (cases "displayMessageBox s ''Error'' (''Failed to call stat() on path:'' @ [CHR 0x0A, CHR 0x0A] @ p) Critical w")
    (auto simp add: getMTime_def displayError_def split: sum.splits)

lemma getMTime_fs: "fs (snd (getMTime s p w)) = fs w"
  using displayMessageBox_fs [of s "''Error''" "''Failed to call stat() on path:'' @ [CHR 0x0A, CHR 0x0A] @ p" Critical w]
  by (cases "displayMessageBox s ''Error'' (''Failed to call stat() on path:'' @ [CHR 0x0A, CHR 0x0A] @ p) Critical w")
    (auto simp add: getMTime_def displayError_def split: sum.splits option.splits)

lemma getMTime_stat: "sys_stat (snd (getMTime s p w)) q = sys_stat w q"
  by (simp add: sys_stat_def getMTime_fs)

lemma getMTime_fst: "fst (getMTime s p w) = mtimeResult s w p"
  by (cases "sys_stat w p") (simp_all add: mtimeResult_def getMTime_failed_fst getMTime_found)

lemma updated_fst:
  "own_binary_realpath s = Some own \<Longrightarrow>
   fst (desktopFileHasBeenUpdatedSinceLastUpdate s p w) =
     (case mtimeResult s w own of
        Inl e \<Rightarrow> Inl e
      | Inr ownBinaryMTime \<Rightarrow>
          (case mtimeResult s w (registeredDesktopFile s w p) of
             Inl e \<Rightarrow> Inl e
           | Inr desktopFileMTime \<Rightarrow>
               Inr (\<not> (desktopFileMTime <s 0 \<or> ownBinaryMTime <s 0) \<and>
                    ownBinaryMTime <s desktopFileMTime)))"
proof -
  assume own: "own_binary_realpath s = Some own"
  obtain r1 w1 where g1: "getMTime s own w = (r1, w1)" by (cases "getMTime s own w")
  obtain r2 w2 where g2: "getMTime s (registeredDesktopFile s w p) w1 = (r2, w2)"
    by (cases "getMTime s (registeredDesktopFile s w p) w1")
  have r1: "r1 = mtimeResult s w own"
    using getMTime_fst [of s own w] g1 by simp
  have "sys_stat w1 q = sys_stat w q" for q
    using getMTime_stat [of s own w q] g1 by simp
  then have "mtimeResult s w1 q = mtimeResult s w q" for q
    by (simp add: mtimeResult_def)
  then have r2: "r2 = mtimeResult s w (registeredDesktopFile s w p)"
    using getMTime_fst [of s "registeredDesktopFile s w p" w1] g2 by simp
  show ?thesis
    using own g1 g2 r1 r2
    by (simp add: desktopFileHasBeenUpdatedSinceLastUpdate_def getOwnBinaryPath_def
        registeredDesktopFile_def [symmetric] split: sum.splits)
qed


lemma sint_minus_1_64: "sint (- 1 :: 64 word) = - 1"
  by simp

lemma isHeadless_frame: "\<exists>t. snd (isHeadless s w) = w\<lparr>trace := t\<rparr>"
  by (auto simp add: isHeadless_def Let_def log_event_def intro: exI [of _ "trace w"])

lemma displayMessageBox_frame:
  "\<exists>t. snd (displayMessageBox s title message icn w) = w\<lparr>trace := t\<rparr>"
proof -
  obtain t where t: "snd (isHeadless s w) = w\<lparr>trace := t\<rparr>"
    using isHeadless_frame by blast
  show ?thesis
    using t by (cases "isHeadless s w") (auto simp add: displayMessageBox_def log_event_def split: sum.splits)
qed

lemma getMTime_frame: "\<exists>t. snd (getMTime s p w) = w\<lparr>trace := t\<rparr>"
proof (cases "sys_stat w p")
  case None
  obtain t where t: "snd (displayMessageBox s ''Error''
      (''Failed to call stat() on path:'' @ [CHR 0x0A, CHR 0x0A] @ p) Critical w) = w\<lparr>trace := t\<rparr>"
    using displayMessageBox_frame by blast
  show ?thesis
    using None t
    by (cases "displayMessageBox s ''Error''
          (''Failed to call stat() on path:'' @ [CHR 0x0A, CHR 0x0A] @ p) Critical w")
      (auto simp add: getMTime_def displayError_def split: sum.splits)
next
  case (Some st)
  then have "snd (getMTime s p w) = w\<lparr>trace := trace w\<rparr>"
    by (simp add: getMTime_def)
  then show ?thesis by blast
qed

lemma updated_frame:
  "\<exists>t. snd (desktopFileHasBeenUpdatedSinceLastUpdate s p w) = w\<lparr>trace := t\<rparr>"
proof (cases "own_binary_realpath s")
  case None
  then have "snd (desktopFileHasBeenUpdatedSinceLastUpdate s p w) = w\<lparr>trace := trace w\<rparr>"
    by (simp add: desktopFileHasBeenUpdatedSinceLastUpdate_def getOwnBinaryPath_def)
  then show ?thesis by blast
next
  case (Some own)
  obtain r1 w1 where g1: "getMTime s own w = (r1, w1)" by (cases "getMTime s own w")
  obtain r2 w2 where g2: "getMTime s (registeredDesktopFile s w p) w1 = (r2, w2)"
    by (cases "getMTime s (registeredDesktopFile s w p) w1")
  obtain t1 where t1: "w1 = w\<lparr>trace := t1\<rparr>"
    using getMTime_frame [of s own w] g1 by auto
  obtain t2 where t2: "w2 = w1\<lparr>trace := t2\<rparr>"
    using getMTime_frame [of s "registeredDesktopFile s w p" w1] g2 by auto
  have w2: "w2 = w\<lparr>trace := t2\<rparr>"
    using t1 t2 by simp
  have "snd (desktopFileHasBeenUpdatedSinceLastUpdate s p w) = w1 \<or>
        snd (desktopFileHasBeenUpdatedSinceLastUpdate s p w) = w2"
    using Some g1 g2
    by (simp add: desktopFileHasBeenUpdatedSinceLastUpdate_def getOwnBinaryPath_def
        registeredDesktopFile_def [symmetric] split: sum.splits)
  then show ?thesis
    using t1 w2 by blast
qed

lemma updated_both_found:
  assumes "own_binary_realpath s = Some own"
    and "sys_stat w own = Some so"
    and "sys_stat w (registeredDesktopFile s w p) = Some sd"
  shows "desktopFileHasBeenUpdatedSinceLastUpdate s p w =
           (Inr (0 \<le> sint (st_mtime so) \<and> sint (st_mtime so) < sint (st_mtime sd)), w)"
proof -
  have "desktopFileHasBeenUpdatedSinceLastUpdate s p w =
      (Inr (\<not> (st_mtime sd <s 0 \<or> st_mtime so <s 0) \<and> st_mtime so <s st_mtime sd), w)"
    using assms
    by (simp add: desktopFileHasBeenUpdatedSinceLastUpdate_def getOwnBinaryPath_def
        registeredDesktopFile_def [symmetric] getMTime_found)
  moreover have "(\<not> (st_mtime sd <s 0 \<or> st_mtime so <s 0) \<and> st_mtime so <s st_mtime sd) \<longleftrightarrow>
      (0 \<le> sint (st_mtime so) \<and> sint (st_mtime so) < sint (st_mtime sd))"
    by (auto simp add: word_sless_alt)
  ultimately show ?thesis by simp
qed

text \<open>
  Claim C2, amended. What \<open>desktopFileHasBeenUpdatedSinceLastUpdate\<close> returns, case by case.
  When the path of the running binary cannot be resolved, the runtime error of
  \<open>getOwnBinaryPath\<close> leaves the function. When \<open>stat\<close> succeeds on the binary and on the
  registered desktop file, the function returns, with no effect at all, whether the
  modification time of the binary is not negative and that of the desktop file is strictly
  greater than it. When \<open>stat\<close> fails on either path, the function returns false if
  \<open>isHeadless\<close> returns a value (the error message is displayed), and otherwise the runtime
  error of \<open>isHeadless\<close> leaves it. So it returns true if and only if the path of the binary
  is resolved, both calls of \<open>stat\<close> succeed, the time of the binary is not negative and
  the time of the desktop file is strictly greater. In every case the function changes
  nothing of the world but the record of its effects.
\<close>

theorem desktopFileHasBeenUpdated_amended:
  "(own_binary_realpath s = None \<longrightarrow>
      desktopFileHasBeenUpdatedSinceLastUpdate s p w =
        (Inl (RuntimeError ''Could not detect path to own binary; something must be horribly broken''), w)) \<and>
   (\<forall>own so sd. own_binary_realpath s = Some own \<and> sys_stat w own = Some so \<and>
        sys_stat w (registeredDesktopFile s w p) = Some sd \<longrightarrow>
      desktopFileHasBeenUpdatedSinceLastUpdate s p w =
        (Inr (0 \<le> sint (st_mtime so) \<and> sint (st_mtime so) < sint (st_mtime sd)), w)) \<and>
   (\<forall>own. own_binary_realpath s = Some own \<and>
      (sys_stat w own = None \<or> sys_stat w (registeredDesktopFile s w p) = None) \<longrightarrow>
        fst (desktopFileHasBeenUpdatedSinceLastUpdate s p w) =
          (if isHeadlessReturns s then Inr False
           else Inl (RuntimeError ''Headless detection failed: unexpected exit code from xhost''))) \<and>
   (fst (desktopFileHasBeenUpdatedSinceLastUpdate s p w) = Inr True \<longleftrightarrow>
      (\<exists>own so sd. own_binary_realpath s = Some own \<and> sys_stat w own = Some so \<and>
          sys_stat w (registeredDesktopFile s w p) = Some sd \<and>
          0 \<le> sint (st_mtime so) \<and> sint (st_mtime so) < sint (st_mtime sd))) \<and>
   (\<exists>t. snd (desktopFileHasBeenUpdatedSinceLastUpdate s p w) = w\<lparr>trace := t\<rparr>)"
proof (intro conjI allI impI)
  assume "own_binary_realpath s = None"
  then show "desktopFileHasBeenUpdatedSinceLastUpdate s p w =
        (Inl (RuntimeError ''Could not detect path to own binary; something must be horribly broken''), w)"
    by (simp add: desktopFileHasBeenUpdatedSinceLastUpdate_def getOwnBinaryPath_def)
next
  fix own so sd
  assume "own_binary_realpath s = Some own \<and> sys_stat w own = Some so \<and>
        sys_stat w (registeredDesktopFile s w p) = Some sd"
  then show "desktopFileHasBeenUpdatedSinceLastUpdate s p w =
        (Inr (0 \<le> sint (st_mtime so) \<and> sint (st_mtime so) < sint (st_mtime sd)), w)"
    by (simp add: updated_both_found)
next
  fix own
  assume a: "own_binary_realpath s = Some own \<and>
      (sys_stat w own = None \<or> sys_stat w (registeredDesktopFile s w p) = None)"
  then have own: "own_binary_realpath s = Some own" by simp
  show "fst (desktopFileHasBeenUpdatedSinceLastUpdate s p w) =
          (if isHeadlessReturns s then Inr False
           else Inl (RuntimeError ''Headless detection failed: unexpected exit code from xhost''))"
    unfolding updated_fst [OF own, of p w] using a
    by (cases "sys_stat w own"; cases "sys_stat w (registeredDesktopFile s w p)")
      (auto simp add: mtimeResult_def word_sless_alt)
next
  show "fst (desktopFileHasBeenUpdatedSinceLastUpdate s p w) = Inr True \<longleftrightarrow>
      (\<exists>own so sd. own_binary_realpath s = Some own \<and> sys_stat w own = Some so \<and>
          sys_stat w (registeredDesktopFile s w p) = Some sd \<and>
          0 \<le> sint (st_mtime so) \<and> sint (st_mtime so) < sint (st_mtime sd))"
  proof (cases "own_binary_realpath s")
    case None
    then show ?thesis
      by (simp add: desktopFileHasBeenUpdatedSinceLastUpdate_def getOwnBinaryPath_def)
  next
    case (Some own)
    show ?thesis
      unfolding updated_fst [OF Some, of p w] using Some
      by (cases "sys_stat w own"; cases "sys_stat w (registeredDesktopFile s w p)")
        (auto simp add: mtimeResult_def word_sless_alt)
  qed
next
  show "\<exists>t. snd (desktopFileHasBeenUpdatedSinceLastUpdate s p w) = w\<lparr>trace := t\<rparr>"
    by (rule updated_frame)
qed

lemma example_times_stat:
  "sys_stat (example_times_world a b) ''/usr/bin/AppImageLauncher'' =
     Some \<lparr>st_uid = 0, st_gid = 0, st_mode = 33261, st_mtime = a\<rparr>"
  "sys_stat (example_times_world a b) example_desktop_file =
     Some \<lparr>st_uid = 1000, st_gid = 1000, st_mode = 33261, st_mtime = b\<rparr>"
  "sys_stat example_world example_desktop_file = None"
  "sys_stat example_world ''/usr/bin/AppImageLauncher'' =
     Some \<lparr>st_uid = 0, st_gid = 0, st_mode = 33261, st_mtime = 1600000000\<rparr>"
  by (simp_all add: sys_stat_def example_times_world_def example_desktop_file_def example_world_def)

lemma example_registered:
  "own_binary_realpath example_registered_sys = Some ''/usr/bin/AppImageLauncher''"
  "registeredDesktopFile example_registered_sys w p = example_desktop_file"
  "isHeadlessReturns example_registered_sys"
  "own_binary_realpath (example_registered_sys\<lparr>xhost_exit_code := 2\<rparr>) = Some ''/usr/bin/AppImageLauncher''"
  "registeredDesktopFile (example_registered_sys\<lparr>xhost_exit_code := 2\<rparr>) w p = example_desktop_file"
  "\<not> isHeadlessReturns (example_registered_sys\<lparr>xhost_exit_code := 2\<rparr>)"
  by (simp_all add: example_registered_sys_def example_sys_def registeredDesktopFile_def
      isHeadlessReturns_def)


lemma example_unresolved:
  "own_binary_realpath (example_registered_sys\<lparr>own_binary_realpath := None\<rparr>) = None"
  by simp

text \<open>
  A desktop file newer than the launcher, one of the same time, one newer than a launcher
  dated before 1970, one that is missing (with the error displayed, and with \<open>xhost\<close>
  exiting with code 2), and a launcher whose own path cannot be resolved.
\<close>

theorem desktopFileHasBeenUpdated_amended_witness:
  "desktopFileHasBeenUpdatedSinceLastUpdate example_registered_sys
     ''/home/user/Applications/app.AppImage'' (example_times_world 1600000000 1700000000) =
     (Inr True, example_times_world 1600000000 1700000000) \<and>
   desktopFileHasBeenUpdatedSinceLastUpdate example_registered_sys
     ''/home/user/Applications/app.AppImage'' (example_times_world 1600000000 1600000000) =
     (Inr False, example_times_world 1600000000 1600000000) \<and>
   desktopFileHasBeenUpdatedSinceLastUpdate example_registered_sys
     ''/home/user/Applications/app.AppImage'' (example_times_world (- 1) 1) =
     (Inr False, example_times_world (- 1) 1) \<and>
   fst (desktopFileHasBeenUpdatedSinceLastUpdate example_registered_sys
         ''/home/user/Applications/app.AppImage'' example_world) = Inr False \<and>
   fst (desktopFileHasBeenUpdatedSinceLastUpdate (example_registered_sys\<lparr>xhost_exit_code := 2\<rparr>)
         ''/home/user/Applications/app.AppImage'' example_world) =
     Inl (RuntimeError ''Headless detection failed: unexpected exit code from xhost'') \<and>
   desktopFileHasBeenUpdatedSinceLastUpdate (example_registered_sys\<lparr>own_binary_realpath := None\<rparr>)
     ''/home/user/Applications/app.AppImage'' example_world =
     (Inl (RuntimeError ''Could not detect path to own binary; something must be horribly broken''),
      example_world)"
  using desktopFileHasBeenUpdated_amended [of example_registered_sys
          "''/home/user/Applications/app.AppImage''" "example_times_world 1600000000 1700000000"]
    desktopFileHasBeenUpdated_amended [of example_registered_sys
          "''/home/user/Applications/app.AppImage''" "example_times_world 1600000000 1600000000"]
    desktopFileHasBeenUpdated_amended [of example_registered_sys
          "''/home/user/Applications/app.AppImage''" "example_times_world (- 1) 1"]
    desktopFileHasBeenUpdated_amended [of example_registered_sys
          "''/home/user/Applications/app.AppImage''" example_world]
    desktopFileHasBeenUpdated_amended [of "example_registered_sys\<lparr>xhost_exit_code := 2\<rparr>"
          "''/home/user/Applications/app.AppImage''" example_world]
    desktopFileHasBeenUpdated_amended [of "example_registered_sys\<lparr>own_binary_realpath := None\<rparr>"
          "''/home/user/Applications/app.AppImage''" example_world]
  by (simp add: example_registered example_times_stat)

text \<open>
  Claim C2 as stated fails. With the launcher last modified one second before 1970 and
  the desktop file one second after it, \<open>stat\<close> succeeds on both and the desktop file is
  the newer one, but the function returns false: a negative time is taken for a failure.
  And when \<open>stat\<close> fails on the desktop file while \<open>xhost\<close> exits with code 2, the function
  does not return false: displaying the error throws.
\<close>

theorem desktopFileHasBeenUpdated_counterexample:
  "sys_stat (example_times_world (- 1) 1) ''/usr/bin/AppImageLauncher'' =
     Some \<lparr>st_uid = 0, st_gid = 0, st_mode = 33261, st_mtime = - 1\<rparr> \<and>
   sys_stat (example_times_world (- 1) 1) example_desktop_file =
     Some \<lparr>st_uid = 1000, st_gid = 1000, st_mode = 33261, st_mtime = 1\<rparr> \<and>
   \<not> (fst (desktopFileHasBeenUpdatedSinceLastUpdate example_registered_sys
             ''/home/user/Applications/app.AppImage'' (example_times_world (- 1) 1)) = Inr True
        \<longleftrightarrow> sint (- 1 :: 64 word) < sint (1 :: 64 word)) \<and>
   sys_stat example_world example_desktop_file = None \<and>
   fst (desktopFileHasBeenUpdatedSinceLastUpdate (example_registered_sys\<lparr>xhost_exit_code := 2\<rparr>)
         ''/home/user/Applications/app.AppImage'' example_world) \<noteq> Inr False"
proof -
  have "fst (desktopFileHasBeenUpdatedSinceLastUpdate example_registered_sys
             ''/home/user/Applications/app.AppImage'' (example_times_world (- 1) 1)) = Inr False"
    by (simp add: updated_fst [OF example_registered(1)] example_registered mtimeResult_def
        example_times_stat word_sless_alt)
  moreover have "fst (desktopFileHasBeenUpdatedSinceLastUpdate (example_registered_sys\<lparr>xhost_exit_code := 2\<rparr>)
         ''/home/user/Applications/app.AppImage'' example_world) =
       Inl (RuntimeError ''Headless detection failed: unexpected exit code from xhost'')"
    by (simp add: updated_fst [OF example_registered(4)] example_registered mtimeResult_def
        example_times_stat)
  ultimately show ?thesis
    by (simp add: example_times_stat)
qed

section \<open>Declining to overwrite (C4)\<close>








section \<open>The number appended on a collision (C1)\<close>

lemma last_dropWhile:
  "xs \<noteq> [] \<Longrightarrow> \<not> P (last xs) \<Longrightarrow> dropWhile P xs \<noteq> [] \<and> last (dropWhile P xs) = last xs"
  by (induction xs) (auto split: if_splits)

lemma close_bracket_not_space: "\<not> is_space CHR '')''"
  by (simp add: is_space_def)

lemma close_bracket_not_digit: "\<not> is_digit CHR '')''"
  by (simp add: is_digit_def less_eq_char_def)

lemma trimmed_keeps_last:
  assumes "str \<noteq> []" and "last str = CHR '')''"
  shows "trimmed str \<noteq> [] \<and> last (trimmed str) = CHR '')''"
proof -
  let ?u = "dropWhile is_space str"
  have u: "?u \<noteq> [] \<and> last ?u = CHR '')''"
    using last_dropWhile [of str is_space] assms close_bracket_not_space by simp
  then have "hd (rev ?u) = CHR '')''"
    by (simp add: hd_rev)
  then have "dropWhile is_space (rev ?u) = rev ?u"
    using u close_bracket_not_space by (cases "rev ?u") simp_all
  then have "trimmed str = ?u"
    by (simp add: trimmed_def)
  then show ?thesis
    using u by simp
qed

lemma toUInt_close_bracket:
  assumes "str \<noteq> []" and "last str = CHR '')''"
  shows "toUInt str = 0"
proof -
  let ?t = "trimmed str"
  let ?ds = "case ?t of [] \<Rightarrow> [] | c # r \<Rightarrow> if c = CHR ''+'' then r else ?t"
  have t: "?t \<noteq> [] \<and> last ?t = CHR '')''"
    using trimmed_keeps_last [OF assms] .
  have "?ds \<noteq> [] \<longrightarrow> last ?ds = CHR '')''"
    using t by (cases ?t) (auto split: if_splits)
  then have "?ds \<noteq> [] \<longrightarrow> \<not> list_all is_digit ?ds"
    using close_bracket_not_digit
    by (metis last_in_set list_all_iff)
  then show ?thesis
    by (auto simp add: toUInt_def Let_def)
qed

lemma regex_match_whole:
  "regex_match subject = Some (captured0, captured1) \<Longrightarrow>
     captured0 \<noteq> [] \<and> last captured0 = CHR '')''"
proof -
  assume m: "regex_match subject = Some (captured0, captured1)"
  let ?core = "if subject \<noteq> [] \<and> last subject = CHR 0x0A then butlast subject else subject"
  from m obtain c r1 where r: "rev ?core = c # r1" and c: "c = CHR '')''" and c0: "captured0 = ?core"
    by (auto simp add: regex_match_def Let_def split: list.splits if_splits)
  from r have "?core \<noteq> []" by auto
  moreover from r have "last ?core = c"
    by (metis last_rev list.sel(1) rev_rev_ident)
  ultimately show ?thesis
    using c c0 by simp
qed

lemma collisionNumber_unchanged:
  "currentNumber \<noteq> 0 \<Longrightarrow> collisionNumber collisions currentNumber = currentNumber"
proof (induction collisions arbitrary: currentNumber)
  case Nil
  then show ?case by simp
next
  case (Cons collision rest)
  show ?case
  proof (cases "regex_match (snd collision)")
    case None
    then show ?thesis using Cons by simp
  next
    case (Some m)
    obtain captured0 captured1 where m: "m = (captured0, captured1)" by (cases m)
    have "toUInt captured0 = 0"
      using regex_match_whole [of "snd collision" captured0 captured1] Some m
      by (simp add: toUInt_close_bracket)
    then show ?thesis
      using Cons Some m by (simp add: Let_def)
  qed
qed

text \<open>
  Claim C1 does not hold of the code. The loop reads the number from \<open>captured(0)\<close>, the
  whole match, which ends in a closing bracket and so is never a number: \<open>toUInt\<close> gives
  0, and \<open>currentNumber\<close> stays 1 whatever the colliding names are. With \<open>Foo (2)\<close>
  integrated, the new desktop file of \<open>Foo\<close> is named \<open>Foo (1)\<close>, where the claim (and the
  comment in lines 393-396) asks for \<open>Foo (3)\<close>.
\<close>

theorem collisionNumber_is_always_1:
  "collisionNumber collisions 1 = 1 \<and>
   map_of (findCollisions collision_sys collision_world ''Foo'')
     ''/home/user/.local/share/applications/appimagekit_old-foo.desktop'' = Some ''Foo (2)'' \<and>
   fst (installDesktopFileAndIcons collision_sys ''/home/user/Applications/foo.AppImage'' True
          collision_world) = Inr True \<and>
   map_option (\<lambda>kf. g_key_file_get_string kf ''Desktop Entry'' ''Name'')
     (keyfiles (snd (installDesktopFileAndIcons collision_sys ''/home/user/Applications/foo.AppImage''
                       True collision_world))
        ''/home/user/.local/share/applications/appimagekit_new-foo.desktop'') = Some (Some ''Foo (1)'')"
proof -
  have "collisionNumber collisions 1 = 1"
    by (simp add: collisionNumber_unchanged)
  moreover have "map_of (findCollisions collision_sys collision_world ''Foo'')
     ''/home/user/.local/share/applications/appimagekit_old-foo.desktop'' = Some ''Foo (2)''"
    by code_simp
  moreover have "fst (installDesktopFileAndIcons collision_sys ''/home/user/Applications/foo.AppImage'' True
          collision_world) = Inr True"
    by code_simp
  moreover have "map_option (\<lambda>kf. g_key_file_get_string kf ''Desktop Entry'' ''Name'')
     (keyfiles (snd (installDesktopFileAndIcons collision_sys ''/home/user/Applications/foo.AppImage''
                       True collision_world))
        ''/home/user/.local/share/applications/appimagekit_new-foo.desktop'') = Some (Some ''Foo (1)'')"
    by code_simp
  ultimately show ?thesis by simp
qed

section \<open>Cleaning up old desktop files (C3)\<close>

lemma qfile_exists_log [simp]: "qfile_exists (log_event e w) q = qfile_exists w q"
  by (simp add: qfile_exists_def sys_stat_def log_event_def)

lemma load_log [simp]: "g_key_file_load_from_file (log_event e w) q = g_key_file_load_from_file w q"
  by (auto simp add: g_key_file_load_from_file_def log_event_def qfile_exists_def sys_stat_def)

lemma qfile_remove_trace: "trace (snd (qfile_remove s p w)) = trace w @ [ERemove p]"
  by (simp add: qfile_remove_def log_event_def Let_def)

lemma qfile_remove_exists:
  "qfile_exists (snd (qfile_remove s p w)) q \<longleftrightarrow>
     qfile_exists w q \<and> \<not> (q = p \<and> remove_permitted s p)"
  by (auto simp add: qfile_remove_def log_event_def Let_def qfile_exists_def sys_stat_def)

lemma qfile_remove_load:
  "g_key_file_load_from_file (snd (qfile_remove s p w)) q =
     (if q = p \<and> remove_permitted s p then None else g_key_file_load_from_file w q)"
  by (auto simp add: qfile_remove_def log_event_def Let_def qfile_exists_def sys_stat_def
      g_key_file_load_from_file_def)

lemma qfile_remove_subtree: "subtree (snd (qfile_remove s p w)) = subtree w"
  by (simp add: qfile_remove_def log_event_def Let_def)

lemma fold_remove_trace:
  "trace (fold (\<lambda>p w1. if P p then snd (qfile_remove s p w1) else w1) xs w) =
     trace w @ map ERemove (filter P xs)"
  by (induction xs arbitrary: w) (simp_all add: qfile_remove_trace)

lemma fold_remove_gone:
  "\<not> qfile_exists w q \<Longrightarrow>
   \<not> qfile_exists (fold (\<lambda>p w1. if P p then snd (qfile_remove s p w1) else w1) xs w) q"
  by (induction xs arbitrary: w) (simp_all add: qfile_remove_exists)

lemma removeIcons_trace:
  "\<exists>icons. trace (removeIcons s iconValue w) = trace w @ map ERemove icons"
  unfolding removeIcons_def fold_remove_trace by blast

lemma removeIcons_gone:
  "\<not> qfile_exists w q \<Longrightarrow> \<not> qfile_exists (removeIcons s iconValue w) q"
  unfolding removeIcons_def by (rule fold_remove_gone)

lemma removeIcons_none:
  "qdir_iterator_subdirectories w ''~/.local/share/icons/'' = [] \<Longrightarrow> removeIcons s iconValue w = w"
  by (simp add: removeIcons_def)

lemma referencedAppImagePath_words:
  "referencedAppImagePath execValue tryExecValue =
     (case tryExecValue of Some t \<Rightarrow> t | None \<Rightarrow> takeWhile (\<lambda>c. c \<noteq> CHR '' '') execValue)"
  by (simp add: referencedAppImagePath_def split_first_def split: option.split)

lemma cleanUpDesktopFile_not_stale:
  "\<not> staleDesktopFile w (dirPath @ ''/'' @ entry) \<Longrightarrow>
   cleanUpDesktopFile s verbose dirPath entry w = w"
  by (auto simp add: cleanUpDesktopFile_def staleDesktopFile_def referencedPath_def Let_def
      referencedAppImagePath_words split: option.splits)

lemma cleanUpDesktopFile_stale:
  assumes "referencedPath w (dirPath @ ''/'' @ entry) = Some appImagePath"
    and "\<not> qfile_exists w appImagePath"
  shows "\<exists>icon. cleanUpDesktopFile s verbose dirPath entry w =
           (case icon of
              None \<Rightarrow> staleRemoved s verbose (dirPath @ ''/'' @ entry) appImagePath w
            | Some iconValue \<Rightarrow>
                removeIcons s iconValue
                  (staleRemoved s verbose (dirPath @ ''/'' @ entry) appImagePath w))"
proof -
  from assms(1) obtain desktopFile execValue where
    l: "g_key_file_load_from_file w (dirPath @ ''/'' @ entry) = Some desktopFile" and
    e: "g_key_file_get_string desktopFile ''Desktop Entry'' ''Exec'' = Some execValue" and
    r: "appImagePath = referencedAppImagePath execValue
          (g_key_file_get_string desktopFile ''Desktop Entry'' ''TryExec'')"
    by (auto simp add: referencedPath_def referencedAppImagePath_words split: option.splits)
  have "cleanUpDesktopFile s verbose dirPath entry w =
           (case g_key_file_get_string desktopFile ''Desktop Entry'' ''Icon'' of
              None \<Rightarrow> staleRemoved s verbose (dirPath @ ''/'' @ entry) appImagePath w
            | Some iconValue \<Rightarrow>
                removeIcons s iconValue
                  (staleRemoved s verbose (dirPath @ ''/'' @ entry) appImagePath w))"
    using l e r assms(2)
    by (simp add: cleanUpDesktopFile_def Let_def staleRemoved_def split: option.split)
  then show ?thesis by blast
qed

lemma staleRemoved_trace:
  "\<exists>msgs. trace (staleRemoved s verbose p r w) = trace w @ map EStdout msgs @ [ERemove p] \<and>
          (\<not> verbose \<longrightarrow> msgs = [])"
proof (cases verbose)
  case True
  have "trace (staleRemoved s verbose p r w) =
      trace w @ map EStdout [''AppImage no longer exists, cleaning up resources: '' @ r,
                             ''Removing desktop file: '' @ p] @ [ERemove p]"
    using True by (simp add: staleRemoved_def qfile_remove_trace log_event_def)
  then show ?thesis using True by blast
next
  case False
  have "trace (staleRemoved s verbose p r w) = trace w @ map EStdout [] @ [ERemove p]"
    using False by (simp add: staleRemoved_def qfile_remove_trace)
  then show ?thesis by blast
qed

lemma staleRemoved_exists:
  "qfile_exists (staleRemoved s verbose p r w) q \<longleftrightarrow>
     qfile_exists w q \<and> \<not> (q = p \<and> remove_permitted s p)"
  by (simp add: staleRemoved_def qfile_remove_exists)

lemma staleRemoved_load:
  "g_key_file_load_from_file (staleRemoved s verbose p r w) q =
     (if q = p \<and> remove_permitted s p then None else g_key_file_load_from_file w q)"
  by (simp add: staleRemoved_def qfile_remove_load)

lemma staleRemoved_subtree: "subtree (staleRemoved s verbose p r w) = subtree w"
  by (simp add: staleRemoved_def qfile_remove_subtree log_event_def)

lemma cleanUpDesktopFile_stale_effect:
  assumes "staleDesktopFile w (dirPath @ ''/'' @ entry)"
  shows "(\<exists>msgs icons.
            trace (cleanUpDesktopFile s verbose dirPath entry w) =
              trace w @ map EStdout msgs @ ERemove (dirPath @ ''/'' @ entry) # map ERemove icons \<and>
            (\<not> verbose \<longrightarrow> msgs = [])) \<and>
         (remove_permitted s (dirPath @ ''/'' @ entry) \<longrightarrow>
            \<not> qfile_exists (cleanUpDesktopFile s verbose dirPath entry w) (dirPath @ ''/'' @ entry))"
proof -
  let ?p = "dirPath @ ''/'' @ entry"
  from assms obtain r where r: "referencedPath w ?p = Some r" and nr: "\<not> qfile_exists w r"
    by (auto simp add: staleDesktopFile_def split: option.splits)
  let ?w3 = "staleRemoved s verbose ?p r w"
  obtain icon where run: "cleanUpDesktopFile s verbose dirPath entry w =
      (case icon of None \<Rightarrow> ?w3 | Some iconValue \<Rightarrow> removeIcons s iconValue ?w3)"
    using cleanUpDesktopFile_stale [OF r nr] by blast
  obtain msgs where m: "trace ?w3 = trace w @ map EStdout msgs @ [ERemove ?p]"
    and v: "\<not> verbose \<longrightarrow> msgs = []"
    using staleRemoved_trace [of s verbose ?p r w] by blast
  have gone: "remove_permitted s ?p \<longrightarrow> \<not> qfile_exists ?w3 ?p"
    by (simp add: staleRemoved_exists)
  show ?thesis
  proof (cases icon)
    case None
    have "trace (cleanUpDesktopFile s verbose dirPath entry w) =
        trace w @ map EStdout msgs @ ERemove ?p # map ERemove []"
      using run None m by simp
    then show ?thesis using v gone run None by auto
  next
    case (Some iconValue)
    obtain icons where i: "trace (removeIcons s iconValue ?w3) = trace ?w3 @ map ERemove icons"
      using removeIcons_trace by blast
    have "trace (cleanUpDesktopFile s verbose dirPath entry w) =
        trace w @ map EStdout msgs @ ERemove ?p # map ERemove icons"
      using run Some m i by simp
    moreover have "remove_permitted s ?p \<longrightarrow>
        \<not> qfile_exists (cleanUpDesktopFile s verbose dirPath entry w) ?p"
      using gone run Some removeIcons_gone by simp
    ultimately show ?thesis using v by blast
  qed
qed


lemma referencedPath_load:
  "g_key_file_load_from_file w' q = g_key_file_load_from_file w q \<Longrightarrow>
   referencedPath w' q = referencedPath w q"
  by (simp add: referencedPath_def)

lemma referencedPath_unloaded:
  "g_key_file_load_from_file w q = None \<Longrightarrow> referencedPath w q = None"
  by (simp add: referencedPath_def)

lemma no_icons_after:
  assumes "qdir_iterator_subdirectories w d = []"
    and "subtree w' = subtree w"
    and "\<And>q. qfile_exists w' q \<Longrightarrow> qfile_exists w q"
  shows "qdir_iterator_subdirectories w' d = []"
  using assms by (auto simp add: qdir_iterator_subdirectories_def filter_empty_conv)

lemma cleanUpDesktopFile_no_icons:
  assumes "qdir_iterator_subdirectories w ''~/.local/share/icons/'' = []"
  shows "(qfile_exists (cleanUpDesktopFile s verbose dirPath entry w) q \<longleftrightarrow>
            qfile_exists w q \<and>
            \<not> (q = dirPath @ ''/'' @ entry \<and> staleDesktopFile w q \<and> remove_permitted s q)) \<and>
         g_key_file_load_from_file (cleanUpDesktopFile s verbose dirPath entry w) q =
           (if q = dirPath @ ''/'' @ entry \<and> staleDesktopFile w q \<and> remove_permitted s q
            then None else g_key_file_load_from_file w q) \<and>
         subtree (cleanUpDesktopFile s verbose dirPath entry w) = subtree w"
proof (cases "staleDesktopFile w (dirPath @ ''/'' @ entry)")
  case False
  then show ?thesis
    by (auto simp add: cleanUpDesktopFile_not_stale)
next
  case True
  let ?p = "dirPath @ ''/'' @ entry"
  from True obtain r where r: "referencedPath w ?p = Some r" and nr: "\<not> qfile_exists w r"
    by (auto simp add: staleDesktopFile_def split: option.splits)
  let ?w3 = "staleRemoved s verbose ?p r w"
  have "qdir_iterator_subdirectories ?w3 ''~/.local/share/icons/'' = []"
    using assms by (rule no_icons_after) (simp_all add: staleRemoved_subtree staleRemoved_exists)
  then have id: "removeIcons s iconValue ?w3 = ?w3" for iconValue
    by (rule removeIcons_none)
  obtain icon where "cleanUpDesktopFile s verbose dirPath entry w =
      (case icon of None \<Rightarrow> ?w3 | Some iconValue \<Rightarrow> removeIcons s iconValue ?w3)"
    using cleanUpDesktopFile_stale [OF r nr] by blast
  then have run: "cleanUpDesktopFile s verbose dirPath entry w = ?w3"
    using id by (cases icon) simp_all
  show ?thesis
    unfolding run using True
    by (auto simp add: staleRemoved_exists staleRemoved_load staleRemoved_subtree)
qed

lemma cleanUp_fold_exists:
  assumes "qdir_iterator_subdirectories w ''~/.local/share/icons/'' = []"
    and "\<forall>e\<in>set es. \<forall>e'\<in>set es.
           referencedPath w (dirPath @ ''/'' @ e) \<noteq> Some (dirPath @ ''/'' @ e')"
  shows "qfile_exists (fold (cleanUpDesktopFile s verbose dirPath) es w) q \<longleftrightarrow>
           qfile_exists w q \<and>
           \<not> (\<exists>e\<in>set es. q = dirPath @ ''/'' @ e \<and> staleDesktopFile w q \<and> remove_permitted s q)"
  using assms
proof (induction es arbitrary: w)
  case Nil
  then show ?case by simp
next
  case (Cons e rest)
  let ?p = "dirPath @ ''/'' @ e"
  let ?w1 = "cleanUpDesktopFile s verbose dirPath e w"
  let ?R = "staleDesktopFile w ?p \<and> remove_permitted s ?p"
  have ex1: "qfile_exists ?w1 x \<longleftrightarrow> qfile_exists w x \<and> \<not> (x = ?p \<and> ?R)" for x
    using cleanUpDesktopFile_no_icons [OF Cons.prems(1), of s verbose dirPath e x] by auto
  have load1: "g_key_file_load_from_file ?w1 x =
      (if x = ?p \<and> ?R then None else g_key_file_load_from_file w x)" for x
    using cleanUpDesktopFile_no_icons [OF Cons.prems(1), of s verbose dirPath e x] by auto
  have sub1: "subtree ?w1 = subtree w"
    using cleanUpDesktopFile_no_icons [OF Cons.prems(1), of s verbose dirPath e] by auto
  have ref1: "referencedPath ?w1 x = (if x = ?p \<and> ?R then None else referencedPath w x)" for x
  proof (cases "x = ?p \<and> ?R")
    case True
    then have "g_key_file_load_from_file ?w1 x = None"
      using load1 [of x] by simp
    then show ?thesis
      using True by (simp add: referencedPath_unloaded)
  next
    case False
    then have "g_key_file_load_from_file ?w1 x = g_key_file_load_from_file w x"
      using load1 [of x] by auto
    then have "referencedPath ?w1 x = referencedPath w x"
      by (rule referencedPath_load)
    then show ?thesis
      using False by auto
  qed
  have i: "qdir_iterator_subdirectories ?w1 ''~/.local/share/icons/'' = []"
    using Cons.prems(1) sub1 by (rule no_icons_after) (simp add: ex1)
  have ii: "\<forall>e1\<in>set rest. \<forall>e2\<in>set rest.
      referencedPath ?w1 (dirPath @ ''/'' @ e1) \<noteq> Some (dirPath @ ''/'' @ e2)"
    using Cons.prems(2) by (simp add: ref1)
  have stale1: "staleDesktopFile ?w1 x \<longleftrightarrow> staleDesktopFile w x \<and> \<not> (x = ?p \<and> ?R)"
    if "x = dirPath @ ''/'' @ e'" and "e' \<in> set rest" for x e'
  proof (cases "x = ?p \<and> ?R")
    case True
    then show ?thesis by (simp add: staleDesktopFile_def ref1)
  next
    case False
    have "referencedPath w x \<noteq> Some ?p"
      using Cons.prems(2) that by simp
    then show ?thesis
      using False by (auto simp add: staleDesktopFile_def ref1 ex1 split: option.splits)
  qed
  have "qfile_exists (fold (cleanUpDesktopFile s verbose dirPath) (e # rest) w) q \<longleftrightarrow>
      qfile_exists ?w1 q \<and>
      \<not> (\<exists>e'\<in>set rest. q = dirPath @ ''/'' @ e' \<and> staleDesktopFile ?w1 q \<and> remove_permitted s q)"
    using Cons.IH [OF i ii] by simp
  also have "\<dots> \<longleftrightarrow> qfile_exists w q \<and> \<not> (q = ?p \<and> ?R) \<and>
      \<not> (\<exists>e'\<in>set rest. q = dirPath @ ''/'' @ e' \<and> staleDesktopFile w q \<and>
            \<not> (q = ?p \<and> ?R) \<and> remove_permitted s q)"
    using stale1 ex1 by blast
  also have "\<dots> \<longleftrightarrow> qfile_exists w q \<and>
      \<not> (\<exists>e'\<in>set (e # rest). q = dirPath @ ''/'' @ e' \<and> staleDesktopFile w q \<and> remove_permitted s q)"
    by auto
  finally show ?case .
qed



text \<open>
  Claim C3. \<open>cleanUpOldDesktopIntegrationResources\<close> always returns true, and it runs the
  body of its loop once for each entry that \<open>entryList\<close> gives for the filter
  \<open>appimagekit_*.desktop\<close> in the applications directory of the user, in that order.
  Whatever the world is when an entry is examined: if the desktop file is stale (it parses,
  has an Exec key, and the path it references, TryExec or else the first token of Exec,
  does not exist), the body calls \<open>remove\<close> on it, after nothing but the messages of the
  verbose mode and before nothing but removals of icons, and the file is gone where the
  system permits the removal; if it is not stale the world is left as it is, in particular
  when the file does not parse or has no Exec key. When no icon is found below
  \<open>~/.local/share/icons/\<close> and no examined desktop file references another examined
  desktop file, the paths that exist afterwards are those that existed before, without the
  examined desktop files that were stale and removable.
\<close>

theorem cleanUpOldDesktopIntegrationResources_spec:
  "cleanUpOldDesktopIntegrationResources s verbose w =
     (True, fold (cleanUpDesktopFile s verbose (applicationsDirPath s)) (examinedEntries s w) w) \<and>
   (\<forall>w' dirPath entry.
      (staleDesktopFile w' (dirPath @ ''/'' @ entry) \<longrightarrow>
         (\<exists>msgs icons.
            trace (cleanUpDesktopFile s verbose dirPath entry w') =
              trace w' @ map EStdout msgs @ ERemove (dirPath @ ''/'' @ entry) # map ERemove icons \<and>
            (\<not> verbose \<longrightarrow> msgs = [])) \<and>
         (remove_permitted s (dirPath @ ''/'' @ entry) \<longrightarrow>
            \<not> qfile_exists (cleanUpDesktopFile s verbose dirPath entry w') (dirPath @ ''/'' @ entry))) \<and>
      (\<not> staleDesktopFile w' (dirPath @ ''/'' @ entry) \<longrightarrow>
         cleanUpDesktopFile s verbose dirPath entry w' = w') \<and>
      (g_key_file_load_from_file w' (dirPath @ ''/'' @ entry) = None \<or>
       (\<exists>desktopFile. g_key_file_load_from_file w' (dirPath @ ''/'' @ entry) = Some desktopFile \<and>
          g_key_file_get_string desktopFile ''Desktop Entry'' ''Exec'' = None) \<longrightarrow>
         cleanUpDesktopFile s verbose dirPath entry w' = w')) \<and>
   (qdir_iterator_subdirectories w ''~/.local/share/icons/'' = [] \<and>
    (\<forall>e\<in>set (examinedEntries s w). \<forall>e'\<in>set (examinedEntries s w).
       referencedPath w (applicationsDirPath s @ ''/'' @ e) \<noteq> Some (applicationsDirPath s @ ''/'' @ e')) \<longrightarrow>
      (\<forall>q. qfile_exists (snd (cleanUpOldDesktopIntegrationResources s verbose w)) q \<longleftrightarrow>
           qfile_exists w q \<and>
           \<not> (\<exists>e\<in>set (examinedEntries s w).
                 q = applicationsDirPath s @ ''/'' @ e \<and> staleDesktopFile w q \<and>
                 remove_permitted s q)))"
proof -
  have run: "cleanUpOldDesktopIntegrationResources s verbose w =
     (True, fold (cleanUpDesktopFile s verbose (applicationsDirPath s)) (examinedEntries s w) w)"
    by (simp add: cleanUpOldDesktopIntegrationResources_def Let_def applicationsDirPath_def
        examinedEntries_def)
  have skipped: "cleanUpDesktopFile s verbose dirPath entry w' = w'"
    if "g_key_file_load_from_file w' (dirPath @ ''/'' @ entry) = None \<or>
       (\<exists>desktopFile. g_key_file_load_from_file w' (dirPath @ ''/'' @ entry) = Some desktopFile \<and>
          g_key_file_get_string desktopFile ''Desktop Entry'' ''Exec'' = None)"
    for w' dirPath entry
  proof -
    have "referencedPath w' (dirPath @ ''/'' @ entry) = None"
      using that by (auto simp add: referencedPath_def)
    then have "\<not> staleDesktopFile w' (dirPath @ ''/'' @ entry)"
      by (simp add: staleDesktopFile_def)
    then show ?thesis
      by (rule cleanUpDesktopFile_not_stale)
  qed
  have global: "qfile_exists (snd (cleanUpOldDesktopIntegrationResources s verbose w)) q \<longleftrightarrow>
           qfile_exists w q \<and>
           \<not> (\<exists>e\<in>set (examinedEntries s w).
                 q = applicationsDirPath s @ ''/'' @ e \<and> staleDesktopFile w q \<and>
                 remove_permitted s q)"
    if "qdir_iterator_subdirectories w ''~/.local/share/icons/'' = [] \<and>
    (\<forall>e\<in>set (examinedEntries s w). \<forall>e'\<in>set (examinedEntries s w).
       referencedPath w (applicationsDirPath s @ ''/'' @ e) \<noteq> Some (applicationsDirPath s @ ''/'' @ e'))"
    for q
    using that cleanUp_fold_exists [of w "examinedEntries s w" "applicationsDirPath s" s verbose q]
    by (simp add: run)
  show ?thesis
  proof (intro conjI allI impI)
    show "cleanUpOldDesktopIntegrationResources s verbose w =
     (True, fold (cleanUpDesktopFile s verbose (applicationsDirPath s)) (examinedEntries s w) w)"
      by (rule run)
  next
    fix w' dirPath entry
    assume st: "staleDesktopFile w' (dirPath @ ''/'' @ entry)"
    show "\<exists>msgs icons.
            trace (cleanUpDesktopFile s verbose dirPath entry w') =
              trace w' @ map EStdout msgs @ ERemove (dirPath @ ''/'' @ entry) # map ERemove icons \<and>
            (\<not> verbose \<longrightarrow> msgs = [])"
      using cleanUpDesktopFile_stale_effect [OF st, of s verbose] by (rule conjunct1)
    assume "remove_permitted s (dirPath @ ''/'' @ entry)"
    then show "\<not> qfile_exists (cleanUpDesktopFile s verbose dirPath entry w') (dirPath @ ''/'' @ entry)"
      using cleanUpDesktopFile_stale_effect [OF st, of s verbose] by simp
  next
    fix w' dirPath entry
    assume "\<not> staleDesktopFile w' (dirPath @ ''/'' @ entry)"
    then show "cleanUpDesktopFile s verbose dirPath entry w' = w'"
      by (rule cleanUpDesktopFile_not_stale)
  next
    fix w' dirPath entry
    assume "g_key_file_load_from_file w' (dirPath @ ''/'' @ entry) = None \<or>
       (\<exists>desktopFile. g_key_file_load_from_file w' (dirPath @ ''/'' @ entry) = Some desktopFile \<and>
          g_key_file_get_string desktopFile ''Desktop Entry'' ''Exec'' = None)"
    then show "cleanUpDesktopFile s verbose dirPath entry w' = w'"
      by (rule skipped)
  next
    fix q
    assume "qdir_iterator_subdirectories w ''~/.local/share/icons/'' = [] \<and>
    (\<forall>e\<in>set (examinedEntries s w). \<forall>e'\<in>set (examinedEntries s w).
       referencedPath w (applicationsDirPath s @ ''/'' @ e) \<noteq> Some (applicationsDirPath s @ ''/'' @ e'))"
    then show "qfile_exists (snd (cleanUpOldDesktopIntegrationResources s verbose w)) q \<longleftrightarrow>
           qfile_exists w q \<and>
           \<not> (\<exists>e\<in>set (examinedEntries s w).
                 q = applicationsDirPath s @ ''/'' @ e \<and> staleDesktopFile w q \<and>
                 remove_permitted s q)"
      by (rule global)
  qed
qed


text \<open>
  Of the four desktop files only the one whose AppImage is gone is removed: the body of
  the loop removes it and leaves the world as it is for the one whose AppImage exists
  and for the one that does not parse, and the file that is not of AppImageKit is not
  examined.
\<close>

theorem cleanUpOldDesktopIntegrationResources_spec_witness:
  "fst (cleanUpOldDesktopIntegrationResources cleanup_sys True cleanup_world) = True \<and>
   \<not> qfile_exists (snd (cleanUpOldDesktopIntegrationResources cleanup_sys True cleanup_world))
       ''/home/user/.local/share/applications/appimagekit_gone.desktop'' \<and>
   qfile_exists (snd (cleanUpOldDesktopIntegrationResources cleanup_sys True cleanup_world))
       ''/home/user/.local/share/applications/appimagekit_app.desktop'' \<and>
   qfile_exists (snd (cleanUpOldDesktopIntegrationResources cleanup_sys True cleanup_world))
       ''/home/user/.local/share/applications/appimagekit_broken.desktop'' \<and>
   qfile_exists (snd (cleanUpOldDesktopIntegrationResources cleanup_sys True cleanup_world))
       ''/home/user/.local/share/applications/other.desktop'' \<and>
   \<not> qfile_exists
       (cleanUpDesktopFile cleanup_sys True ''/home/user/.local/share/applications''
          ''appimagekit_gone.desktop'' cleanup_world)
       ''/home/user/.local/share/applications/appimagekit_gone.desktop'' \<and>
   cleanUpDesktopFile cleanup_sys True ''/home/user/.local/share/applications''
     ''appimagekit_app.desktop'' cleanup_world = cleanup_world \<and>
   cleanUpDesktopFile cleanup_sys True ''/home/user/.local/share/applications''
     ''appimagekit_broken.desktop'' cleanup_world = cleanup_world"
proof -
  note cleanup = cleanUpOldDesktopIntegrationResources_spec [of cleanup_sys True cleanup_world]
  have quiet: "qdir_iterator_subdirectories cleanup_world ''~/.local/share/icons/'' = [] \<and>
    (\<forall>e\<in>set (examinedEntries cleanup_sys cleanup_world).
       \<forall>e'\<in>set (examinedEntries cleanup_sys cleanup_world).
         referencedPath cleanup_world (applicationsDirPath cleanup_sys @ ''/'' @ e) \<noteq>
           Some (applicationsDirPath cleanup_sys @ ''/'' @ e'))"
    by code_simp
  note after = cleanup [THEN conjunct2, THEN conjunct2, THEN mp, OF quiet, THEN spec]
  note body = cleanup [THEN conjunct2, THEN conjunct1, THEN spec, THEN spec, THEN spec]
  have gone: "\<not> (qfile_exists cleanup_world ''/home/user/.local/share/applications/appimagekit_gone.desktop'' \<and>
       \<not> (\<exists>e\<in>set (examinedEntries cleanup_sys cleanup_world).
             ''/home/user/.local/share/applications/appimagekit_gone.desktop'' =
               applicationsDirPath cleanup_sys @ ''/'' @ e \<and>
             staleDesktopFile cleanup_world ''/home/user/.local/share/applications/appimagekit_gone.desktop'' \<and>
             remove_permitted cleanup_sys ''/home/user/.local/share/applications/appimagekit_gone.desktop''))"
    by code_simp
  have app: "qfile_exists cleanup_world ''/home/user/.local/share/applications/appimagekit_app.desktop'' \<and>
       \<not> (\<exists>e\<in>set (examinedEntries cleanup_sys cleanup_world).
             ''/home/user/.local/share/applications/appimagekit_app.desktop'' =
               applicationsDirPath cleanup_sys @ ''/'' @ e \<and>
             staleDesktopFile cleanup_world ''/home/user/.local/share/applications/appimagekit_app.desktop'' \<and>
             remove_permitted cleanup_sys ''/home/user/.local/share/applications/appimagekit_app.desktop'')"
    by code_simp
  have broken: "qfile_exists cleanup_world ''/home/user/.local/share/applications/appimagekit_broken.desktop'' \<and>
       \<not> (\<exists>e\<in>set (examinedEntries cleanup_sys cleanup_world).
             ''/home/user/.local/share/applications/appimagekit_broken.desktop'' =
               applicationsDirPath cleanup_sys @ ''/'' @ e \<and>
             staleDesktopFile cleanup_world ''/home/user/.local/share/applications/appimagekit_broken.desktop'' \<and>
             remove_permitted cleanup_sys ''/home/user/.local/share/applications/appimagekit_broken.desktop'')"
    by code_simp
  have other: "qfile_exists cleanup_world ''/home/user/.local/share/applications/other.desktop'' \<and>
       \<not> (\<exists>e\<in>set (examinedEntries cleanup_sys cleanup_world).
             ''/home/user/.local/share/applications/other.desktop'' =
               applicationsDirPath cleanup_sys @ ''/'' @ e \<and>
             staleDesktopFile cleanup_world ''/home/user/.local/share/applications/other.desktop'' \<and>
             remove_permitted cleanup_sys ''/home/user/.local/share/applications/other.desktop'')"
    by code_simp
  have stale_gone: "staleDesktopFile cleanup_world
      (''/home/user/.local/share/applications'' @ ''/'' @ ''appimagekit_gone.desktop'')"
    by code_simp
  have permitted_gone: "remove_permitted cleanup_sys
      (''/home/user/.local/share/applications'' @ ''/'' @ ''appimagekit_gone.desktop'')"
    by code_simp
  have fresh_app: "\<not> staleDesktopFile cleanup_world
      (''/home/user/.local/share/applications'' @ ''/'' @ ''appimagekit_app.desktop'')"
    by code_simp
  have unparsed_broken: "g_key_file_load_from_file cleanup_world
      (''/home/user/.local/share/applications'' @ ''/'' @ ''appimagekit_broken.desktop'') = None"
    by code_simp
  have step_gone: "\<not> qfile_exists
       (cleanUpDesktopFile cleanup_sys True ''/home/user/.local/share/applications''
          ''appimagekit_gone.desktop'' cleanup_world)
       (''/home/user/.local/share/applications'' @ ''/'' @ ''appimagekit_gone.desktop'')"
    using body [of cleanup_world "''/home/user/.local/share/applications''"
        "''appimagekit_gone.desktop''"] stale_gone permitted_gone
    by blast
  have step_app: "cleanUpDesktopFile cleanup_sys True ''/home/user/.local/share/applications''
     ''appimagekit_app.desktop'' cleanup_world = cleanup_world"
    using body [of cleanup_world "''/home/user/.local/share/applications''"
        "''appimagekit_app.desktop''"] fresh_app
    by blast
  have step_broken: "cleanUpDesktopFile cleanup_sys True ''/home/user/.local/share/applications''
     ''appimagekit_broken.desktop'' cleanup_world = cleanup_world"
    using body [of cleanup_world "''/home/user/.local/share/applications''"
        "''appimagekit_broken.desktop''",
        THEN conjunct2, THEN conjunct2] unparsed_broken
    by blast
  show ?thesis
    using cleanup [THEN conjunct1]
      after [of "''/home/user/.local/share/applications/appimagekit_gone.desktop''"] gone
      after [of "''/home/user/.local/share/applications/appimagekit_app.desktop''"] app
      after [of "''/home/user/.local/share/applications/appimagekit_broken.desktop''"] broken
      after [of "''/home/user/.local/share/applications/other.desktop''"] other
      step_gone step_app step_broken
    by simp
qed

end
